theory Spec2Isabelle
  imports Main
begin

section \<open>Data model\<close>

text \<open>
  The voter reconciler of \<^verbatim>\<open>taskvault/leader.go\<close> and the Raft start-up of
  \<^verbatim>\<open>taskvault/agent.go\<close>. The Raft and gossip libraries are external: their calls are
  operations of an environment over an abstract world \<open>'w\<close>, and every theorem holds for
  every environment. Go's \<open>error\<close> is \<open>error option\<close>, \<open>None\<close> being \<open>nil\<close>.
\<close>

type_synonym ServerID = string
type_synonym ServerAddress = string

datatype ServerSuffrage = Voter | Nonvoter | Staging

record Server =
  Suffrage :: ServerSuffrage
  ID :: ServerID
  Address :: ServerAddress

datatype MemberStatus = StatusNone | StatusAlive | StatusLeaving | StatusLeft | StatusFailed

record Member =
  Name :: string
  Addr :: string
  Port :: nat
  Tags :: "(string \<times> string) list"
  Status :: MemberStatus

text \<open>
  \<open>ServerParts\<close> is declared outside the sources at hand; the record has the three fields
  that \<open>addRaftPeer\<close> and \<open>removeRaftPeer\<close> read.
\<close>

record ServerParts =
  sp_ID :: string
  sp_Port :: int
  sp_Bootstrap :: bool

record Config =
  NodeName :: string
  Bootstrap :: bool
  BootstrapExpect :: int
  DevMode :: bool
  DataDir :: string

datatype error =
    LibError string
  | ErrRemovingServer ServerAddress error
  | ErrFileSnapshotStore error
  | ErrNewRaftStore error
  | ErrNewRaft error

datatype level = LvlDebug | LvlInfo | LvlWarn | LvlError

datatype logarg = ArgStr string | ArgErr error | ArgMember Member

datatype select_case = SelStop | SelShutdown | SelInterval | SelMember Member

text \<open>
  What the agent does to the outside, in program order: a logger call (level, message or
  format, arguments), a Raft call, the non-blocking poll of the stop channel and the
  blocking select of the wait phase (with \<open>True\<close> when \<open>refreshCh\<close> is not nil).
\<close>

datatype event =
    Log level string "logarg list"
  | CallBarrier
  | CallGetConfiguration
  | CallRemoveServer ServerID
  | CallAddVoter ServerID ServerAddress
  | PollStop
  | WaitSelect bool

record 'w env =
  toServerPart :: "Member \<Rightarrow> ServerParts option"
  TCPAddrString :: "string \<Rightarrow> int \<Rightarrow> ServerAddress"
  serf_Members :: "'w \<Rightarrow> Member list"
  raft_Barrier :: "'w \<Rightarrow> error option \<times> 'w"
  raft_GetConfiguration :: "'w \<Rightarrow> (error + Server list) \<times> 'w"
  raft_RemoveServer :: "ServerID \<Rightarrow> 'w \<Rightarrow> error option \<times> 'w"
  raft_AddVoter :: "ServerID \<Rightarrow> ServerAddress \<Rightarrow> 'w \<Rightarrow> error option \<times> 'w"
  stopCh_closed :: "'w \<Rightarrow> bool"
  wait_select :: "bool \<Rightarrow> 'w \<Rightarrow> select_case \<times> 'w"

record 'w st =
  world :: 'w
  trace :: "event list"

section \<open>The reconciler\<close>

definition emit :: "event \<Rightarrow> 'w st \<Rightarrow> 'w st" where
  "emit e s = s\<lparr>trace := trace s @ [e]\<rparr>"

definition Barrier :: "'w env \<Rightarrow> 'w st \<Rightarrow> error option \<times> 'w st" where
  "Barrier E s =
     (case raft_Barrier E (world s) of
        (r, w') \<Rightarrow> (r, emit CallBarrier (s\<lparr>world := w'\<rparr>)))"

definition GetConfiguration :: "'w env \<Rightarrow> 'w st \<Rightarrow> (error + Server list) \<times> 'w st" where
  "GetConfiguration E s =
     (case raft_GetConfiguration E (world s) of
        (r, w') \<Rightarrow> (r, emit CallGetConfiguration (s\<lparr>world := w'\<rparr>)))"

definition RemoveServer :: "'w env \<Rightarrow> ServerID \<Rightarrow> 'w st \<Rightarrow> error option \<times> 'w st" where
  "RemoveServer E sid s =
     (case raft_RemoveServer E sid (world s) of
        (r, w') \<Rightarrow> (r, emit (CallRemoveServer sid) (s\<lparr>world := w'\<rparr>)))"

definition AddVoter :: "'w env \<Rightarrow> ServerID \<Rightarrow> ServerAddress \<Rightarrow> 'w st \<Rightarrow> error option \<times> 'w st" where
  "AddVoter E sid addr s =
     (case raft_AddVoter E sid addr (world s) of
        (r, w') \<Rightarrow> (r, emit (CallAddVoter sid addr) (s\<lparr>world := w'\<rparr>)))"

text \<open>
  Lines 147 to 161 of \<^verbatim>\<open>leader.go\<close>: the first member of the list that is a server, has
  another name than \<open>m\<close> and is in bootstrap mode. The member's status is not read.
\<close>

fun bootstrap_conflict :: "(Member \<Rightarrow> ServerParts option) \<Rightarrow> Member \<Rightarrow> Member list \<Rightarrow> Member option" where
  "bootstrap_conflict tsp m [] = None"
| "bootstrap_conflict tsp m (member # rest) =
     (case tsp member of
        None \<Rightarrow> bootstrap_conflict tsp m rest
      | Some parts \<Rightarrow>
          if Name member \<noteq> Name m \<and> sp_Bootstrap parts then Some member
          else bootstrap_conflict tsp m rest)"

datatype loop_result = Completed | Returned "error option"

text \<open>Lines 181 to 197: the loop over the servers of the fetched configuration.\<close>

fun addRaftPeer_servers ::
  "'w env \<Rightarrow> ServerAddress \<Rightarrow> ServerID \<Rightarrow> Server list \<Rightarrow> 'w st \<Rightarrow> loop_result \<times> 'w st" where
  "addRaftPeer_servers E addr sid [] s = (Completed, s)"
| "addRaftPeer_servers E addr sid (server # rest) s =
     (if Address server = addr \<or> ID server = sid then
        if Address server = addr \<and> ID server = sid then (Returned None, s)
        else if Address server = addr then
          (case RemoveServer E (ID server) s of
             (Some err, s') \<Rightarrow> (Returned (Some (ErrRemovingServer (Address server) err)), s')
           | (None, s') \<Rightarrow> addRaftPeer_servers E addr sid rest s')
        else addRaftPeer_servers E addr sid rest s
      else addRaftPeer_servers E addr sid rest s)"

definition addRaftPeer :: "'w env \<Rightarrow> Config \<Rightarrow> Member \<Rightarrow> ServerParts \<Rightarrow> 'w st \<Rightarrow> error option \<times> 'w st" where
  "addRaftPeer E cfg m parts s =
     (let members = serf_Members E (world s) in
      case (if sp_Bootstrap parts then bootstrap_conflict (toServerPart E) m members else None) of
        Some member \<Rightarrow>
          (None, emit (Log LvlError ''taskvault: '%v' and '%v' are both in bootstrap mode..''
                         [ArgStr (Name m), ArgStr (Name member)]) s)
      | None \<Rightarrow>
          (let addr = TCPAddrString E (Addr m) (sp_Port parts) in
           case GetConfiguration E s of
             (Inl err, s1) \<Rightarrow>
               (Some err, emit (Log LvlError ''taskvault: failed to get raft configuration'' [ArgErr err]) s1)
           | (Inr servers, s1) \<Rightarrow>
               if Name m = NodeName cfg \<and> length servers < 3 then
                 (None, emit (Log LvlDebug ''taskvault: Skipping self join check'' [ArgStr (Name m)]) s1)
               else
                 (case addRaftPeer_servers E addr (sp_ID parts) servers s1 of
                    (Returned r, s2) \<Rightarrow> (r, s2)
                  | (Completed, s2) \<Rightarrow> AddVoter E (sp_ID parts) addr s2)))"

text \<open>Lines 223 to 231: at most one \<open>RemoveServer\<close>, for the first server with the ID.\<close>

fun removeRaftPeer_servers :: "'w env \<Rightarrow> ServerID \<Rightarrow> Server list \<Rightarrow> 'w st \<Rightarrow> error option \<times> 'w st" where
  "removeRaftPeer_servers E sid [] s = (None, s)"
| "removeRaftPeer_servers E sid (server # rest) s =
     (if ID server = sid then RemoveServer E sid s
      else removeRaftPeer_servers E sid rest s)"

definition removeRaftPeer :: "'w env \<Rightarrow> Config \<Rightarrow> Member \<Rightarrow> ServerParts \<Rightarrow> 'w st \<Rightarrow> error option \<times> 'w st" where
  "removeRaftPeer E cfg m parts s =
     (if Name m = NodeName cfg then
        (None, emit (Log LvlWarn ''removing self should be done by follower''
                       [ArgStr ''name'', ArgStr (NodeName cfg)]) s)
      else
        case GetConfiguration E s of
          (Inl err, s1) \<Rightarrow> (Some err, s1)
        | (Inr servers, s1) \<Rightarrow> removeRaftPeer_servers E (sp_ID parts) servers s1)"

definition RefreshMember :: "'w env \<Rightarrow> Config \<Rightarrow> Member \<Rightarrow> 'w st \<Rightarrow> error option \<times> 'w st" where
  "RefreshMember E cfg member s =
     (case toServerPart E member of
        None \<Rightarrow> (None, s)
      | Some parts \<Rightarrow>
          (case (case Status member of
                   StatusAlive \<Rightarrow> addRaftPeer E cfg member parts s
                 | StatusLeft \<Rightarrow> removeRaftPeer E cfg member parts s
                 | _ \<Rightarrow> (None, s)) of
             (Some err, s') \<Rightarrow>
               (Some err, emit (Log LvlError ''failed to Refresh member'' [ArgErr err, ArgMember member]) s')
           | (None, s') \<Rightarrow> (None, s')))"

fun Refresh_members :: "'w env \<Rightarrow> Config \<Rightarrow> Member list \<Rightarrow> 'w st \<Rightarrow> error option \<times> 'w st" where
  "Refresh_members E cfg [] s = (None, s)"
| "Refresh_members E cfg (member # rest) s =
     (case RefreshMember E cfg member s of
        (Some err, s') \<Rightarrow> (Some err, s')
      | (None, s') \<Rightarrow> Refresh_members E cfg rest s')"

definition Refresh :: "'w env \<Rightarrow> Config \<Rightarrow> 'w st \<Rightarrow> error option \<times> 'w st" where
  "Refresh E cfg s = Refresh_members E cfg (serf_Members E (world s)) s"

text \<open>
  The configuration changes issued between two states, and whether a fetched
  configuration already holds the target entry for the loop of \<open>addRaftPeer\<close>: the first
  server with the target address has the target ID.
\<close>

fun is_config_change :: "event \<Rightarrow> bool" where
  "is_config_change (CallRemoveServer sid) = True"
| "is_config_change (CallAddVoter sid addr) = True"
| "is_config_change e = False"

definition config_changes :: "'w st \<Rightarrow> 'w st \<Rightarrow> event list" where
  "config_changes s s' = filter is_config_change (drop (length (trace s)) (trace s'))"

definition already_voter :: "ServerAddress \<Rightarrow> ServerID \<Rightarrow> Server list \<Rightarrow> bool" where
  "already_voter addr sid servers =
     (case find (\<lambda>sv. Address sv = addr) servers of None \<Rightarrow> False | Some sv \<Rightarrow> ID sv = sid)"

section \<open>The reconciler loop\<close>

text \<open>
  \<open>leaderLoop\<close> (lines 60 to 103) jumps between the labels \<open>REFRESH\<close> and \<open>WAIT\<close> and
  returns only from a receive on \<open>stopCh\<close> or on \<open>shutdowner\<close>. The local \<open>refreshCh\<close> is
  nil (\<open>False\<close>) or the agent's channel (\<open>True\<close>); a receive from a nil channel never
  happens, so the select cannot take the member case then (\<open>Blocked\<close>). The metrics
  calls are not modelled.
\<close>

datatype jump = Exit | Blocked | GotoREFRESH | GotoWAIT bool

definition leaderLoop_REFRESH :: "'w env \<Rightarrow> Config \<Rightarrow> 'w st \<Rightarrow> jump \<times> 'w st" where
  "leaderLoop_REFRESH E cfg s =
     (case Barrier E s of
        (Some err, s1) \<Rightarrow>
          (GotoWAIT False, emit (Log LvlError ''taskvault: failed to wait for barrier'' [ArgErr err]) s1)
      | (None, s1) \<Rightarrow>
          (case Refresh E cfg s1 of
             (Some err, s2) \<Rightarrow> (GotoWAIT False, emit (Log LvlError ''failed to '' [ArgErr err]) s2)
           | (None, s2) \<Rightarrow>
               (let s3 = emit PollStop s2 in
                if stopCh_closed E (world s3) then (Exit, s3) else (GotoWAIT True, s3))))"

definition leaderLoop_WAIT :: "'w env \<Rightarrow> Config \<Rightarrow> bool \<Rightarrow> 'w st \<Rightarrow> jump \<times> 'w st" where
  "leaderLoop_WAIT E cfg refreshCh s =
     (case wait_select E refreshCh (world s) of
        (c, w') \<Rightarrow>
          (let s1 = emit (WaitSelect refreshCh) (s\<lparr>world := w'\<rparr>) in
           case c of
             SelStop \<Rightarrow> (Exit, s1)
           | SelShutdown \<Rightarrow> (Exit, s1)
           | SelInterval \<Rightarrow> (GotoREFRESH, s1)
           | SelMember member \<Rightarrow>
               if refreshCh then
                 (case RefreshMember E cfg member s1 of
                    (Some err, s2) \<Rightarrow>
                      (GotoWAIT refreshCh,
                       emit (Log LvlError ''taskvault: failed to Refresh member'' [ArgErr err]) s2)
                  | (None, s2) \<Rightarrow> (GotoWAIT refreshCh, s2))
               else (Blocked, s1)))"

text \<open>
  The loop need not return: the fuel counts the jumps, and \<open>None\<close> is a loop that has not
  returned within them.
\<close>

fun leaderLoop_from :: "'w env \<Rightarrow> Config \<Rightarrow> nat \<Rightarrow> jump \<Rightarrow> 'w st \<Rightarrow> 'w st option" where
  "leaderLoop_from E cfg fuel Exit s = Some s"
| "leaderLoop_from E cfg fuel Blocked s = None"
| "leaderLoop_from E cfg 0 GotoREFRESH s = None"
| "leaderLoop_from E cfg 0 (GotoWAIT refreshCh) s = None"
| "leaderLoop_from E cfg (Suc fuel) GotoREFRESH s =
     (case leaderLoop_REFRESH E cfg s of (nx, s') \<Rightarrow> leaderLoop_from E cfg fuel nx s')"
| "leaderLoop_from E cfg (Suc fuel) (GotoWAIT refreshCh) s =
     (case leaderLoop_WAIT E cfg refreshCh s of (nx, s') \<Rightarrow> leaderLoop_from E cfg fuel nx s')"

definition leaderLoop :: "'w env \<Rightarrow> Config \<Rightarrow> nat \<Rightarrow> 'w st \<Rightarrow> 'w st option" where
  "leaderLoop E cfg fuel s = leaderLoop_from E cfg fuel GotoREFRESH s"

text \<open>
  Two assumptions on the environment under which a closed stop channel ends the loop: a
  closed channel stays closed across the Raft calls, and a select made while the stop
  channel is closed takes the stop or the shutdown case. Go's select chooses among the
  ready cases at random, so the second is an assumption on the run, not a property of
  the program.
\<close>

definition stop_stays_closed :: "'w env \<Rightarrow> bool" where
  "stop_stays_closed E =
     (\<forall>w. stopCh_closed E w \<longrightarrow>
        stopCh_closed E (snd (raft_Barrier E w))
        \<and> stopCh_closed E (snd (raft_GetConfiguration E w))
        \<and> (\<forall>sid. stopCh_closed E (snd (raft_RemoveServer E sid w)))
        \<and> (\<forall>sid addr. stopCh_closed E (snd (raft_AddVoter E sid addr w))))"

definition select_takes_stop :: "'w env \<Rightarrow> bool" where
  "select_takes_stop E =
     (\<forall>refreshCh w. stopCh_closed E w \<longrightarrow>
        fst (wait_select E refreshCh w) = SelStop \<or> fst (wait_select E refreshCh w) = SelShutdown)"

section \<open>The leadership monitor\<close>












section \<open>Raft start-up\<close>

text \<open>
  \<open>setupRaft\<close> (\<^verbatim>\<open>agent.go\<close>, lines 156 to 260). Each library call is made at most once, so
  its outcome is an input; the calls made are recorded in order. Paths are the arguments
  of \<open>filepath.Join\<close>. The log output and the time-outs of the Raft configuration are not
  modelled.
\<close>

record raft_lib =
  lib_NewFileSnapshotStore :: "error option"
  lib_NewBoltStore :: "error option"
  lib_NewLogCache :: "error option"
  lib_HasExistingState :: "error + bool"
  lib_BootstrapCluster :: "error option"
  lib_NewRaft :: "error option"
  lib_LocalAddr :: ServerAddress

datatype setup_call =
    NewNetworkTransport
  | NewInmemStore
  | NewDiscardSnapshotStore
  | NewFileSnapshotStore "string list"
  | NewBoltStore "string list"
  | NewLogCache nat
  | CloseRaftStore
  | HasExistingState
  | BootstrapCluster ServerID "Server list"
  | NewRaft ServerID

record agent =
  config :: Config
  raftStore_set :: bool
  calls :: "setup_call list"

definition raftLogCacheSize :: nat where
  "raftLogCacheSize = 512"

definition called :: "setup_call \<Rightarrow> agent \<Rightarrow> agent" where
  "called c a = a\<lparr>calls := calls a @ [c]\<rparr>"

text \<open>
  Lines 185 to 224: the log store, the stable store and the snapshot store. Line 207
  assigns the result of \<open>NewBoltStore\<close> to \<open>a.raftStore\<close> before the error is tested, so the
  field is set on both paths.
\<close>

definition setupRaft_stores :: "raft_lib \<Rightarrow> agent \<Rightarrow> error option \<times> agent" where
  "setupRaft_stores L a =
     (if DevMode (config a) then (None, called NewDiscardSnapshotStore (called NewInmemStore a))
      else
        let a1 = called (NewFileSnapshotStore [DataDir (config a), ''raft'']) a in
        case lib_NewFileSnapshotStore L of
          Some err \<Rightarrow> (Some (ErrFileSnapshotStore err), a1)
        | None \<Rightarrow>
            (case (if raftStore_set a1 then (None, a1)
                   else
                     let a2 = (called (NewBoltStore [DataDir (config a1), ''raft'', ''raft.db'']) a1)
                                \<lparr>raftStore_set := True\<rparr> in
                     case lib_NewBoltStore L of
                       Some err \<Rightarrow> (Some (ErrNewRaftStore err), a2)
                     | None \<Rightarrow> (None, a2)) of
               (Some err, a3) \<Rightarrow> (Some err, a3)
             | (None, a3) \<Rightarrow>
                 (let a4 = called (NewLogCache raftLogCacheSize) a3 in
                  case lib_NewLogCache L of
                    Some err \<Rightarrow> (Some err, called CloseRaftStore a4)
                  | None \<Rightarrow> (None, a4))))"

text \<open>Lines 226 to 247.\<close>

definition setupRaft_bootstrap :: "raft_lib \<Rightarrow> agent \<Rightarrow> error option \<times> agent" where
  "setupRaft_bootstrap L a =
     (if Bootstrap (config a) \<or> DevMode (config a) then
        let a1 = called HasExistingState a in
        case lib_HasExistingState L of
          Inl err \<Rightarrow> (Some err, a1)
        | Inr hasState \<Rightarrow>
            if \<not> hasState then
              (lib_BootstrapCluster L,
               called (BootstrapCluster (NodeName (config a1))
                         [\<lparr>Suffrage = Voter, ID = NodeName (config a1), Address = lib_LocalAddr L\<rparr>]) a1)
            else (None, a1)
      else (None, a))"

definition setupRaft :: "raft_lib \<Rightarrow> agent \<Rightarrow> error option \<times> agent" where
  "setupRaft L a =
     (let a0 = (if BootstrapExpect (config a) = 1 then a\<lparr>config := (config a)\<lparr>Bootstrap := True\<rparr>\<rparr> else a);
          a1 = called NewNetworkTransport a0
      in case setupRaft_stores L a1 of
           (Some err, a2) \<Rightarrow> (Some err, a2)
         | (None, a2) \<Rightarrow>
             (case setupRaft_bootstrap L a2 of
                (Some err, a3) \<Rightarrow> (Some err, a3)
              | (None, a3) \<Rightarrow>
                  (let a4 = called (NewRaft (NodeName (config a3))) a3 in
                   case lib_NewRaft L of
                     Some err \<Rightarrow> (Some (ErrNewRaft err), a4)
                   | None \<Rightarrow> (None, a4))))"

definition bootstrap_calls :: "agent \<Rightarrow> setup_call list" where
  "bootstrap_calls a = filter (\<lambda>c. case c of BootstrapCluster i srvs \<Rightarrow> True | _ \<Rightarrow> False) (calls a)"

section \<open>A simulated cluster\<close>

text \<open>The decimal number of a tag value.\<close>

definition digit_val :: "char \<Rightarrow> nat option" where
  "digit_val c = (let n = (of_char c :: nat) in if 48 \<le> n \<and> n \<le> 57 then Some (n - 48) else None)"

fun parse_decimal :: "nat \<Rightarrow> string \<Rightarrow> nat option" where
  "parse_decimal acc [] = Some acc"
| "parse_decimal acc (c # cs) =
     (case digit_val c of None \<Rightarrow> None | Some d \<Rightarrow> parse_decimal (10 * acc + d) cs)"

text \<open>
  Modelled from the spec: \<open>toServerPart\<close>, whose source file is not among the sources at
  hand. A member counts as a server when its \<open>role\<close> tag equals the cluster identifier
  and it has an \<open>id\<close> tag and a \<open>port\<close> tag that is a decimal number; it is in bootstrap
  mode when it has a \<open>bootstrap\<close> tag.
\<close>

definition toServerPart_spec :: "string \<Rightarrow> Member \<Rightarrow> ServerParts option" where
  "toServerPart_spec cluster m =
     (if map_of (Tags m) ''role'' \<noteq> Some cluster then None
      else
        case map_of (Tags m) ''id'' of
          None \<Rightarrow> None
        | Some i \<Rightarrow>
            (case map_of (Tags m) ''port'' of
               None \<Rightarrow> None
             | Some p \<Rightarrow>
                 if p = [] then None
                 else
                   (case parse_decimal 0 p of
                      None \<Rightarrow> None
                    | Some n \<Rightarrow>
                        Some \<lparr>sp_ID = i, sp_Port = int n,
                              sp_Bootstrap = (map_of (Tags m) ''bootstrap'' \<noteq> None)\<rparr>)))"

text \<open>
  A small deterministic world to run the model on: the gossip view, the Raft
  configuration, switches that make a Raft call fail, the state of the stop channel and
  the cases the wait-phase selects will take. \<open>RemoveServer\<close> drops the servers with the
  ID; \<open>AddVoter\<close> updates the server with the ID or appends a new one.
\<close>

record sim =
  sim_members :: "Member list"
  sim_servers :: "Server list"
  sim_fail_barrier :: bool
  sim_fail_get :: bool
  sim_fail_remove :: bool
  sim_fail_add :: bool
  sim_stop :: bool
  sim_selects :: "select_case list"

text \<open>
  \<open>(&net.TCPAddr{IP: ip, Port: port}).String()\<close> for an IPv4 address given in its
  dotted form: the host, a colon and the port in decimal.
\<close>

function decimal :: "nat \<Rightarrow> string" where
  "decimal n =
     (if n < 10 then [''0123456789'' ! n] else decimal (n div 10) @ [''0123456789'' ! (n mod 10)])"
  by pat_completeness auto
termination
  by (relation "measure id") auto

declare decimal.simps [simp del]

definition itoa :: "int \<Rightarrow> string" where
  "itoa i = (if i < 0 then CHR ''-'' # decimal (nat (- i)) else decimal (nat i))"

definition sim_addr :: "string \<Rightarrow> int \<Rightarrow> ServerAddress" where
  "sim_addr ip port = ip @ '':'' @ itoa port"

definition sim_AddVoter :: "ServerID \<Rightarrow> ServerAddress \<Rightarrow> Server list \<Rightarrow> Server list" where
  "sim_AddVoter sid addr srvs =
     (if list_ex (\<lambda>sv. ID sv = sid) srvs
      then map (\<lambda>sv. if ID sv = sid then sv\<lparr>Suffrage := Voter, Address := addr\<rparr> else sv) srvs
      else srvs @ [\<lparr>Suffrage = Voter, ID = sid, Address = addr\<rparr>])"

definition sim_env :: "sim env" where
  "sim_env =
     \<lparr>toServerPart = toServerPart_spec ''taskvault'',
      TCPAddrString = sim_addr,
      serf_Members = sim_members,
      raft_Barrier = (\<lambda>w. (if sim_fail_barrier w then Some (LibError ''barrier'') else None, w)),
      raft_GetConfiguration =
        (\<lambda>w. (if sim_fail_get w then Inl (LibError ''configuration'') else Inr (sim_servers w), w)),
      raft_RemoveServer =
        (\<lambda>sid w. if sim_fail_remove w then (Some (LibError ''remove''), w)
                  else (None, w\<lparr>sim_servers := filter (\<lambda>sv. ID sv \<noteq> sid) (sim_servers w)\<rparr>)),
      raft_AddVoter =
        (\<lambda>sid addr w. if sim_fail_add w then (Some (LibError ''add''), w)
                       else (None, w\<lparr>sim_servers := sim_AddVoter sid addr (sim_servers w)\<rparr>)),
      stopCh_closed = sim_stop,
      wait_select =
        (\<lambda>refreshCh w. case sim_selects w of
                          [] \<Rightarrow> (SelShutdown, w)
                        | c # cs \<Rightarrow> (c, w\<lparr>sim_selects := cs\<rparr>))\<rparr>"

text \<open>The same world with a select that takes the stop case whenever the stop channel is closed.\<close>

definition sim_env_stop_first :: "sim env" where
  "sim_env_stop_first =
     sim_env\<lparr>wait_select :=
       (\<lambda>refreshCh w. if sim_stop w then (SelStop, w) else wait_select sim_env refreshCh w)\<rparr>"

definition sim_member :: "string \<Rightarrow> string \<Rightarrow> bool \<Rightarrow> MemberStatus \<Rightarrow> Member" where
  "sim_member n ip boot status =
     \<lparr>Name = n, Addr = ip, Port = 8946,
      Tags = [(''role'', ''taskvault''), (''id'', n), (''port'', ''6868'')]
             @ (if boot then [(''bootstrap'', ''1'')] else []),
      Status = status\<rparr>"

definition sim_server :: "ServerID \<Rightarrow> ServerAddress \<Rightarrow> Server" where
  "sim_server sid addr = \<lparr>Suffrage = Voter, ID = sid, Address = addr\<rparr>"

definition sim_world :: "Member list \<Rightarrow> Server list \<Rightarrow> sim" where
  "sim_world ms srvs =
     \<lparr>sim_members = ms, sim_servers = srvs, sim_fail_barrier = False, sim_fail_get = False,
      sim_fail_remove = False, sim_fail_add = False, sim_stop = False, sim_selects = []\<rparr>"

definition sim_cfg :: "string \<Rightarrow> Config" where
  "sim_cfg n = \<lparr>NodeName = n, Bootstrap = False, BootstrapExpect = 0, DevMode = False, DataDir = ''data''\<rparr>"

definition start :: "'w \<Rightarrow> 'w st" where
  "start w = \<lparr>world = w, trace = []\<rparr>"

section \<open>Basic facts\<close>

lemma emit_trace: "trace (emit e s) = trace s @ [e]"
  by (simp add: emit_def)

lemma decimal_6868: "decimal 6868 = ''6868''"
  by (simp add: decimal.simps [of 6868] decimal.simps [of 686] decimal.simps [of 68]
      decimal.simps [of 6])

lemma sim_addr_6868: "sim_addr ip 6868 = ip @ '':6868''"
  by (simp add: sim_addr_def itoa_def decimal_6868)

lemma emit_world: "world (emit e s) = world s"
  by (simp add: emit_def)

section \<open>Adding and repairing voters\<close>

lemma GetConfiguration_trace:
  "GetConfiguration E s = (r, s1) \<Longrightarrow> trace s1 = trace s @ [CallGetConfiguration]"
  by (auto simp: GetConfiguration_def emit_def split: prod.splits)

lemma RemoveServer_trace:
  "RemoveServer E sid s = (r, s1) \<Longrightarrow> trace s1 = trace s @ [CallRemoveServer sid]"
  by (auto simp: RemoveServer_def emit_def split: prod.splits)

lemma AddVoter_trace:
  "AddVoter E sid addr s = (r, s1) \<Longrightarrow> trace s1 = trace s @ [CallAddVoter sid addr]"
  by (auto simp: AddVoter_def emit_def split: prod.splits)

lemma servers_no_address:
  "\<forall>sv\<in>set servers. Address sv \<noteq> addr \<Longrightarrow>
   addRaftPeer_servers E addr sid servers s = (Completed, s)"
  by (induction servers) auto

lemma servers_exact:
  "distinct (map Address servers) \<Longrightarrow> sv \<in> set servers \<Longrightarrow> Address sv = addr \<Longrightarrow> ID sv = sid \<Longrightarrow>
   addRaftPeer_servers E addr sid servers s = (Returned None, s)"
proof (induction servers)
  case Nil
  then show ?case by simp
next
  case (Cons a servers)
  show ?case
  proof (cases "a = sv")
    case True
    with Cons.prems show ?thesis by simp
  next
    case False
    with Cons.prems have in_rest: "sv \<in> set servers" by simp
    with Cons.prems have "Address a \<noteq> addr" by force
    with Cons in_rest show ?thesis by simp
  qed
qed

lemma servers_stale:
  "distinct (map Address servers) \<Longrightarrow> sv \<in> set servers \<Longrightarrow> Address sv = addr \<Longrightarrow> ID sv \<noteq> sid \<Longrightarrow>
   addRaftPeer_servers E addr sid servers s =
     (case RemoveServer E (ID sv) s of
        (Some err, s') \<Rightarrow> (Returned (Some (ErrRemovingServer addr err)), s')
      | (None, s') \<Rightarrow> (Completed, s'))"
proof (induction servers)
  case Nil
  then show ?case by simp
next
  case (Cons a servers)
  show ?case
  proof (cases "a = sv")
    case True
    from Cons.prems True have "Address sv \<notin> Address ` set servers" by simp
    with Cons.prems have "\<forall>x\<in>set servers. Address x \<noteq> addr" by blast
    then have "\<And>t. addRaftPeer_servers E addr sid servers t = (Completed, t)"
      by (rule servers_no_address)
    with Cons.prems True show ?thesis
      by (auto split: prod.splits option.splits)
  next
    case False
    with Cons.prems have in_rest: "sv \<in> set servers" by simp
    with Cons.prems have "Address a \<noteq> addr" by force
    with Cons in_rest show ?thesis by simp
  qed
qed

lemma addRaftPeer_past_guards:
  assumes "sp_Bootstrap parts \<longrightarrow> bootstrap_conflict (toServerPart E) m (serf_Members E (world s)) = None"
    and "GetConfiguration E s = (Inr servers, s1)"
    and "Name m \<noteq> NodeName cfg \<or> 3 \<le> length servers"
  shows "addRaftPeer E cfg m parts s =
           (case addRaftPeer_servers E (TCPAddrString E (Addr m) (sp_Port parts)) (sp_ID parts) servers s1 of
              (Returned r, s2) \<Rightarrow> (r, s2)
            | (Completed, s2) \<Rightarrow> AddVoter E (sp_ID parts) (TCPAddrString E (Addr m) (sp_Port parts)) s2)"
  using assms by (auto simp: addRaftPeer_def Let_def)

lemma bootstrap_conflict_Some:
  "bootstrap_conflict tsp m ms = Some member \<Longrightarrow>
   member \<in> set ms \<and> Name member \<noteq> Name m \<and> (\<exists>p. tsp member = Some p \<and> sp_Bootstrap p)"
  by (induction ms) (auto split: option.splits if_splits)

lemma bootstrap_conflict_found:
  "other \<in> set ms \<Longrightarrow> tsp other = Some p \<Longrightarrow> sp_Bootstrap p \<Longrightarrow> Name other \<noteq> Name m \<Longrightarrow>
   \<exists>member. bootstrap_conflict tsp m ms = Some member"
  by (induction ms) (auto split: option.splits)

lemma bootstrap_conflict_None_iff:
  "(bootstrap_conflict tsp m ms = None) =
     (\<not> (\<exists>other\<in>set ms. Name other \<noteq> Name m \<and> (\<exists>p. tsp other = Some p \<and> sp_Bootstrap p)))"
proof
  assume none: "bootstrap_conflict tsp m ms = None"
  show "\<not> (\<exists>other\<in>set ms. Name other \<noteq> Name m \<and> (\<exists>p. tsp other = Some p \<and> sp_Bootstrap p))"
  proof
    assume "\<exists>other\<in>set ms. Name other \<noteq> Name m \<and> (\<exists>p. tsp other = Some p \<and> sp_Bootstrap p)"
    then obtain other p where "other \<in> set ms" "tsp other = Some p" "sp_Bootstrap p" "Name other \<noteq> Name m"
      by blast
    from bootstrap_conflict_found [of other ms tsp p m] this none show False by simp
  qed
next
  assume no: "\<not> (\<exists>other\<in>set ms. Name other \<noteq> Name m \<and> (\<exists>p. tsp other = Some p \<and> sp_Bootstrap p))"
  show "bootstrap_conflict tsp m ms = None"
  proof (cases "bootstrap_conflict tsp m ms")
    case None
    then show ?thesis .
  next
    case (Some member)
    from bootstrap_conflict_Some [OF Some] no show ?thesis by blast
  qed
qed

text \<open>
  C1, as amended. A live server member with target entry \<open>(sp_ID parts, addr)\<close> that
  \<open>addRaftPeer\<close> does not skip: it is not in bootstrap mode together with another server
  member, the self-join guard does not apply, and \<open>GetConfiguration\<close> returns the
  servers, whose addresses are distinct. If a server has both the ID and the address,
  nothing but \<open>GetConfiguration\<close> is called and the result is nil. If a server has the
  address and another ID, \<open>RemoveServer\<close> is called for it; when that succeeds \<open>AddVoter\<close>
  is called for the target entry, and when it fails the wrapped error is returned and
  \<open>AddVoter\<close> is not called. Otherwise \<open>AddVoter\<close> is called for the target entry.
\<close>

theorem addRaftPeer_reconciles:
  assumes "\<not> (sp_Bootstrap parts \<and>
               (\<exists>other\<in>set (serf_Members E (world s)).
                   Name other \<noteq> Name m \<and> (\<exists>p. toServerPart E other = Some p \<and> sp_Bootstrap p)))"
    and "GetConfiguration E s = (Inr servers, s1)"
    and "Name m \<noteq> NodeName cfg \<or> 3 \<le> length servers"
    and "distinct (map Address servers)"
    and "addr = TCPAddrString E (Addr m) (sp_Port parts)"
  shows "((\<exists>sv\<in>set servers. ID sv = sp_ID parts \<and> Address sv = addr) \<longrightarrow>
            addRaftPeer E cfg m parts s = (None, s1))
       \<and> (\<forall>sv\<in>set servers. Address sv = addr \<and> ID sv \<noteq> sp_ID parts \<longrightarrow>
            addRaftPeer E cfg m parts s =
              (case RemoveServer E (ID sv) s1 of
                 (Some err, s2) \<Rightarrow> (Some (ErrRemovingServer addr err), s2)
               | (None, s2) \<Rightarrow> AddVoter E (sp_ID parts) addr s2))
       \<and> ((\<forall>sv\<in>set servers. Address sv \<noteq> addr) \<longrightarrow>
            addRaftPeer E cfg m parts s = AddVoter E (sp_ID parts) addr s1)"
proof -
  from assms(1) have nc: "sp_Bootstrap parts \<longrightarrow>
      bootstrap_conflict (toServerPart E) m (serf_Members E (world s)) = None"
    by (simp add: bootstrap_conflict_None_iff)
  note unfolded = addRaftPeer_past_guards [OF nc assms(2) assms(3), folded assms(5)]
  have exact: "addRaftPeer E cfg m parts s = (None, s1)"
    if "sv \<in> set servers" "ID sv = sp_ID parts" "Address sv = addr" for sv
    using unfolded servers_exact [OF assms(4) that(1) that(3) that(2), of E s1] by simp
  have stale: "addRaftPeer E cfg m parts s =
      (case RemoveServer E (ID sv) s1 of
         (Some err, s2) \<Rightarrow> (Some (ErrRemovingServer addr err), s2)
       | (None, s2) \<Rightarrow> AddVoter E (sp_ID parts) addr s2)"
    if "sv \<in> set servers" "Address sv = addr" "ID sv \<noteq> sp_ID parts" for sv
    using unfolded servers_stale [OF assms(4) that(1) that(2) that(3), of E s1]
    by (auto split: prod.splits option.splits)
  have absent: "addRaftPeer E cfg m parts s = AddVoter E (sp_ID parts) addr s1"
    if "\<forall>sv\<in>set servers. Address sv \<noteq> addr"
    using unfolded servers_no_address [OF that, of E "sp_ID parts" s1] by simp
  from exact stale absent show ?thesis by blast
qed

theorem addRaftPeer_reconciles_witness:
  "addRaftPeer sim_env (sim_cfg ''n1'') (sim_member ''n2'' ''10.0.0.2'' False StatusAlive)
     \<lparr>sp_ID = ''n2'', sp_Port = 6868, sp_Bootstrap = False\<rparr>
     (start (sim_world [] [sim_server ''n1'' ''10.0.0.1:6868'', sim_server ''old'' ''10.0.0.2:6868'']))
   = (None,
      \<lparr>world = sim_world [] [sim_server ''n1'' ''10.0.0.1:6868'', sim_server ''n2'' ''10.0.0.2:6868''],
       trace = [CallGetConfiguration, CallRemoveServer ''old'', CallAddVoter ''n2'' ''10.0.0.2:6868'']\<rparr>)"
proof -
  let ?m = "sim_member ''n2'' ''10.0.0.2'' False StatusAlive"
  let ?parts = "\<lparr>sp_ID = ''n2'', sp_Port = 6868, sp_Bootstrap = False\<rparr>"
  let ?servers = "[sim_server ''n1'' ''10.0.0.1:6868'', sim_server ''old'' ''10.0.0.2:6868'']"
  let ?s = "start (sim_world [] ?servers)"
  let ?s1 = "\<lparr>world = sim_world [] ?servers, trace = [CallGetConfiguration]\<rparr>"
  have h1: "\<not> (sp_Bootstrap ?parts \<and>
      (\<exists>other\<in>set (serf_Members sim_env (world ?s)).
          Name other \<noteq> Name ?m \<and> (\<exists>p. toServerPart sim_env other = Some p \<and> sp_Bootstrap p)))"
    by simp
  have h2: "GetConfiguration sim_env ?s = (Inr ?servers, ?s1)"
    by (simp add: GetConfiguration_def sim_env_def sim_world_def start_def emit_def)
  have h3: "Name ?m \<noteq> NodeName (sim_cfg ''n1'') \<or> 3 \<le> length ?servers"
    by (simp add: sim_member_def sim_cfg_def)
  have h4: "distinct (map Address ?servers)"
    by (simp add: sim_server_def)
  have h5: "''10.0.0.2:6868'' = TCPAddrString sim_env (Addr ?m) (sp_Port ?parts)"
    by (simp add: sim_env_def sim_addr_6868 sim_member_def)
  have old: "sim_server ''old'' ''10.0.0.2:6868'' \<in> set ?servers"
    by simp
  have "addRaftPeer sim_env (sim_cfg ''n1'') ?m ?parts ?s =
      (case RemoveServer sim_env ''old'' ?s1 of
         (Some err, s2) \<Rightarrow> (Some (ErrRemovingServer ''10.0.0.2:6868'' err), s2)
       | (None, s2) \<Rightarrow> AddVoter sim_env (sp_ID ?parts) ''10.0.0.2:6868'' s2)"
    using addRaftPeer_reconciles [OF h1 h2 h3 h4 h5] old
    by (simp add: sim_server_def)
  then show ?thesis
    by (simp add: RemoveServer_def AddVoter_def sim_env_def sim_world_def sim_server_def emit_def
        sim_AddVoter_def)
qed

text \<open>
  C1 as stated fails in four ways. With a stale server of the target address,
  \<open>RemoveServer\<close> fails and \<open>addRaftPeer\<close> returns the wrapped error without \<open>AddVoter\<close>.
  The local node whose target entry is missing from a configuration of one server is
  skipped by the self-join guard. A member in bootstrap mode beside another one is
  skipped with the target entry missing. And when a stale server of the target address
  stands before the target entry, \<open>RemoveServer\<close> is issued although the entry is there.
\<close>

theorem addRaftPeer_need_not_add_voter:
  "addRaftPeer sim_env (sim_cfg ''n1'') (sim_member ''n2'' ''10.0.0.2'' False StatusAlive)
     \<lparr>sp_ID = ''n2'', sp_Port = 6868, sp_Bootstrap = False\<rparr>
     (start ((sim_world [] [sim_server ''n1'' ''10.0.0.1:6868'', sim_server ''old'' ''10.0.0.2:6868''])
             \<lparr>sim_fail_remove := True\<rparr>))
   = (Some (ErrRemovingServer ''10.0.0.2:6868'' (LibError ''remove'')),
      \<lparr>world = (sim_world [] [sim_server ''n1'' ''10.0.0.1:6868'', sim_server ''old'' ''10.0.0.2:6868''])
                \<lparr>sim_fail_remove := True\<rparr>,
       trace = [CallGetConfiguration, CallRemoveServer ''old'']\<rparr>)
   \<and> addRaftPeer sim_env (sim_cfg ''n1'') (sim_member ''n1'' ''10.0.0.9'' False StatusAlive)
       \<lparr>sp_ID = ''n1'', sp_Port = 6868, sp_Bootstrap = False\<rparr>
       (start (sim_world [] [sim_server ''n1'' ''10.0.0.1:6868'']))
     = (None,
        \<lparr>world = sim_world [] [sim_server ''n1'' ''10.0.0.1:6868''],
         trace = [CallGetConfiguration,
                  Log LvlDebug ''taskvault: Skipping self join check'' [ArgStr ''n1'']]\<rparr>)
   \<and> addRaftPeer sim_env (sim_cfg ''n3'') (sim_member ''n1'' ''10.0.0.1'' True StatusAlive)
       \<lparr>sp_ID = ''n1'', sp_Port = 6868, sp_Bootstrap = True\<rparr>
       (start (sim_world [sim_member ''n1'' ''10.0.0.1'' True StatusAlive,
                          sim_member ''n2'' ''10.0.0.2'' True StatusAlive] []))
     = (None,
        \<lparr>world = sim_world [sim_member ''n1'' ''10.0.0.1'' True StatusAlive,
                            sim_member ''n2'' ''10.0.0.2'' True StatusAlive] [],
         trace = [Log LvlError ''taskvault: '%v' and '%v' are both in bootstrap mode..''
                    [ArgStr ''n1'', ArgStr ''n2'']]\<rparr>)
   \<and> addRaftPeer sim_env (sim_cfg ''n1'') (sim_member ''n2'' ''10.0.0.2'' False StatusAlive)
       \<lparr>sp_ID = ''n2'', sp_Port = 6868, sp_Bootstrap = False\<rparr>
       (start (sim_world [] [sim_server ''old'' ''10.0.0.2:6868'', sim_server ''n2'' ''10.0.0.2:6868'']))
     = (None,
        \<lparr>world = sim_world [] [sim_server ''n2'' ''10.0.0.2:6868''],
         trace = [CallGetConfiguration, CallRemoveServer ''old'']\<rparr>)"
proof -
  have remove_fails:
    "addRaftPeer sim_env (sim_cfg ''n1'') (sim_member ''n2'' ''10.0.0.2'' False StatusAlive)
     \<lparr>sp_ID = ''n2'', sp_Port = 6868, sp_Bootstrap = False\<rparr>
     (start ((sim_world [] [sim_server ''n1'' ''10.0.0.1:6868'', sim_server ''old'' ''10.0.0.2:6868''])
             \<lparr>sim_fail_remove := True\<rparr>))
   = (Some (ErrRemovingServer ''10.0.0.2:6868'' (LibError ''remove'')),
      \<lparr>world = (sim_world [] [sim_server ''n1'' ''10.0.0.1:6868'', sim_server ''old'' ''10.0.0.2:6868''])
                \<lparr>sim_fail_remove := True\<rparr>,
       trace = [CallGetConfiguration, CallRemoveServer ''old'']\<rparr>)"
    by (simp add: addRaftPeer_def GetConfiguration_def RemoveServer_def emit_def Let_def
        sim_env_def sim_member_def sim_server_def sim_world_def sim_cfg_def sim_addr_6868 start_def)
  have guard:
    "addRaftPeer sim_env (sim_cfg ''n1'') (sim_member ''n1'' ''10.0.0.9'' False StatusAlive)
       \<lparr>sp_ID = ''n1'', sp_Port = 6868, sp_Bootstrap = False\<rparr>
       (start (sim_world [] [sim_server ''n1'' ''10.0.0.1:6868'']))
     = (None,
        \<lparr>world = sim_world [] [sim_server ''n1'' ''10.0.0.1:6868''],
         trace = [CallGetConfiguration,
                  Log LvlDebug ''taskvault: Skipping self join check'' [ArgStr ''n1'']]\<rparr>)"
    by (simp add: addRaftPeer_def GetConfiguration_def emit_def Let_def
        sim_env_def sim_member_def sim_server_def sim_world_def sim_cfg_def start_def)
  have conflict:
    "addRaftPeer sim_env (sim_cfg ''n3'') (sim_member ''n1'' ''10.0.0.1'' True StatusAlive)
       \<lparr>sp_ID = ''n1'', sp_Port = 6868, sp_Bootstrap = True\<rparr>
       (start (sim_world [sim_member ''n1'' ''10.0.0.1'' True StatusAlive,
                          sim_member ''n2'' ''10.0.0.2'' True StatusAlive] []))
     = (None,
        \<lparr>world = sim_world [sim_member ''n1'' ''10.0.0.1'' True StatusAlive,
                            sim_member ''n2'' ''10.0.0.2'' True StatusAlive] [],
         trace = [Log LvlError ''taskvault: '%v' and '%v' are both in bootstrap mode..''
                    [ArgStr ''n1'', ArgStr ''n2'']]\<rparr>)"
    by (simp add: addRaftPeer_def emit_def Let_def
        sim_env_def sim_member_def sim_world_def start_def toServerPart_spec_def digit_val_def)
  have duplicate:
    "addRaftPeer sim_env (sim_cfg ''n1'') (sim_member ''n2'' ''10.0.0.2'' False StatusAlive)
       \<lparr>sp_ID = ''n2'', sp_Port = 6868, sp_Bootstrap = False\<rparr>
       (start (sim_world [] [sim_server ''old'' ''10.0.0.2:6868'', sim_server ''n2'' ''10.0.0.2:6868'']))
     = (None,
        \<lparr>world = sim_world [] [sim_server ''n2'' ''10.0.0.2:6868''],
         trace = [CallGetConfiguration, CallRemoveServer ''old'']\<rparr>)"
    by (simp add: addRaftPeer_def GetConfiguration_def RemoveServer_def emit_def Let_def
        sim_env_def sim_member_def sim_server_def sim_world_def sim_cfg_def sim_addr_6868 start_def)
  from remove_fails guard conflict duplicate show ?thesis by blast
qed

text \<open>
  C2. A member \<open>m\<close> in bootstrap mode, while the gossip view holds another server member
  (another name) in bootstrap mode: \<open>addRaftPeer\<close> logs the error naming both and returns
  nil; the state is otherwise unchanged, so no \<open>GetConfiguration\<close>, \<open>AddVoter\<close> or
  \<open>RemoveServer\<close> is called, and a sweep goes on with the members after \<open>m\<close>. The status
  of the other member is not read by the code, so the statement does not need it to be
  alive.
\<close>

theorem addRaftPeer_bootstrap_conflict:
  assumes "sp_Bootstrap parts"
    and "other \<in> set (serf_Members E (world s))"
    and "toServerPart E other = Some oparts"
    and "sp_Bootstrap oparts"
    and "Name other \<noteq> Name m"
  shows "\<exists>member. member \<in> set (serf_Members E (world s)) \<and> Name member \<noteq> Name m
           \<and> addRaftPeer E cfg m parts s =
               (None, emit (Log LvlError ''taskvault: '%v' and '%v' are both in bootstrap mode..''
                              [ArgStr (Name m), ArgStr (Name member)]) s)
           \<and> (toServerPart E m = Some parts \<and> Status m = StatusAlive \<longrightarrow>
                Refresh_members E cfg (m # rest) s =
                  Refresh_members E cfg rest
                    (emit (Log LvlError ''taskvault: '%v' and '%v' are both in bootstrap mode..''
                             [ArgStr (Name m), ArgStr (Name member)]) s))"
proof -
  from bootstrap_conflict_found [of other "serf_Members E (world s)" "toServerPart E" oparts m] assms
  obtain member where found: "bootstrap_conflict (toServerPart E) m (serf_Members E (world s)) = Some member"
    by blast
  from bootstrap_conflict_Some [OF found]
  have props: "member \<in> set (serf_Members E (world s))" "Name member \<noteq> Name m"
    by simp_all
  from found assms(1) have res: "addRaftPeer E cfg m parts s =
      (None, emit (Log LvlError ''taskvault: '%v' and '%v' are both in bootstrap mode..''
                     [ArgStr (Name m), ArgStr (Name member)]) s)"
    by (simp add: addRaftPeer_def)
  then have "toServerPart E m = Some parts \<and> Status m = StatusAlive \<longrightarrow>
      Refresh_members E cfg (m # rest) s =
        Refresh_members E cfg rest
          (emit (Log LvlError ''taskvault: '%v' and '%v' are both in bootstrap mode..''
                   [ArgStr (Name m), ArgStr (Name member)]) s)"
    by (simp add: RefreshMember_def)
  with props res show ?thesis by blast
qed

theorem addRaftPeer_bootstrap_conflict_witness:
  "addRaftPeer sim_env (sim_cfg ''n1'') (sim_member ''n1'' ''10.0.0.1'' True StatusAlive)
     \<lparr>sp_ID = ''n1'', sp_Port = 6868, sp_Bootstrap = True\<rparr>
     (start (sim_world [sim_member ''n1'' ''10.0.0.1'' True StatusAlive,
                        sim_member ''n2'' ''10.0.0.2'' True StatusAlive] []))
   = (None,
      \<lparr>world = sim_world [sim_member ''n1'' ''10.0.0.1'' True StatusAlive,
                          sim_member ''n2'' ''10.0.0.2'' True StatusAlive] [],
       trace = [Log LvlError ''taskvault: '%v' and '%v' are both in bootstrap mode..''
                  [ArgStr ''n1'', ArgStr ''n2'']]\<rparr>)"
proof -
  let ?m = "sim_member ''n1'' ''10.0.0.1'' True StatusAlive"
  let ?other = "sim_member ''n2'' ''10.0.0.2'' True StatusAlive"
  let ?parts = "\<lparr>sp_ID = ''n1'', sp_Port = 6868, sp_Bootstrap = True\<rparr>"
  let ?s = "start (sim_world [?m, ?other] [])"
  have h1: "sp_Bootstrap ?parts" by simp
  have h2: "?other \<in> set (serf_Members sim_env (world ?s))"
    by (simp add: sim_env_def sim_world_def start_def)
  have h3: "toServerPart sim_env ?other = Some \<lparr>sp_ID = ''n2'', sp_Port = 6868, sp_Bootstrap = True\<rparr>"
    by (simp add: sim_env_def sim_member_def toServerPart_spec_def digit_val_def)
  have h4: "sp_Bootstrap \<lparr>sp_ID = ''n2'', sp_Port = 6868, sp_Bootstrap = True\<rparr>" by simp
  have h5: "Name ?other \<noteq> Name ?m" by (simp add: sim_member_def)
  from addRaftPeer_bootstrap_conflict [OF h1 h2 h3 h4 h5, of "sim_cfg ''n1''" "[]"]
  obtain member where mem: "member \<in> set (serf_Members sim_env (world ?s))"
    and other: "Name member \<noteq> Name ?m"
    and res: "addRaftPeer sim_env (sim_cfg ''n1'') ?m ?parts ?s =
      (None, emit (Log LvlError ''taskvault: '%v' and '%v' are both in bootstrap mode..''
                     [ArgStr (Name ?m), ArgStr (Name member)]) ?s)"
    by blast
  from mem other have "member = ?other"
    by (auto simp: sim_env_def sim_world_def start_def)
  with res show ?thesis
    by (simp add: emit_def start_def sim_member_def)
qed

text \<open>
  C6. The member is the local node and \<open>GetConfiguration\<close> returns fewer than three
  servers: \<open>addRaftPeer\<close> returns nil and issues neither \<open>AddVoter\<close> nor \<open>RemoveServer\<close>.
  Past the bootstrap check it logs the skipped self join after the one
  \<open>GetConfiguration\<close> call.
\<close>

theorem addRaftPeer_self_join_guard:
  assumes "Name m = NodeName cfg"
    and "GetConfiguration E s = (Inr servers, s1)"
    and "length servers < 3"
  shows "addRaftPeer E cfg m parts s =
           (case (if sp_Bootstrap parts
                  then bootstrap_conflict (toServerPart E) m (serf_Members E (world s)) else None) of
              Some member \<Rightarrow>
                (None, emit (Log LvlError ''taskvault: '%v' and '%v' are both in bootstrap mode..''
                               [ArgStr (Name m), ArgStr (Name member)]) s)
            | None \<Rightarrow>
                (None, emit (Log LvlDebug ''taskvault: Skipping self join check'' [ArgStr (Name m)]) s1))
       \<and> fst (addRaftPeer E cfg m parts s) = None
       \<and> config_changes s (snd (addRaftPeer E cfg m parts s)) = []"
proof -
  have tr: "trace s1 = trace s @ [CallGetConfiguration]"
    using assms(2) by (auto simp: GetConfiguration_def emit_def split: prod.splits)
  show ?thesis
    using assms tr by (auto simp: addRaftPeer_def config_changes_def emit_def split: option.splits)
qed

theorem addRaftPeer_self_join_guard_witness:
  "addRaftPeer sim_env (sim_cfg ''n1'') (sim_member ''n1'' ''10.0.0.9'' False StatusAlive)
     \<lparr>sp_ID = ''n1'', sp_Port = 6868, sp_Bootstrap = False\<rparr>
     (start (sim_world [] [sim_server ''n1'' ''10.0.0.1:6868'']))
   = (None,
      \<lparr>world = sim_world [] [sim_server ''n1'' ''10.0.0.1:6868''],
       trace = [CallGetConfiguration,
                Log LvlDebug ''taskvault: Skipping self join check'' [ArgStr ''n1'']]\<rparr>)"
proof -
  let ?m = "sim_member ''n1'' ''10.0.0.9'' False StatusAlive"
  let ?servers = "[sim_server ''n1'' ''10.0.0.1:6868'']"
  let ?s = "start (sim_world [] ?servers)"
  let ?s1 = "\<lparr>world = sim_world [] ?servers, trace = [CallGetConfiguration]\<rparr>"
  have h1: "Name ?m = NodeName (sim_cfg ''n1'')"
    by (simp add: sim_member_def sim_cfg_def)
  have h2: "GetConfiguration sim_env ?s = (Inr ?servers, ?s1)"
    by (simp add: GetConfiguration_def sim_env_def sim_world_def start_def emit_def)
  have h3: "length ?servers < 3" by simp
  from addRaftPeer_self_join_guard [OF h1 h2 h3, of "\<lparr>sp_ID = ''n1'', sp_Port = 6868, sp_Bootstrap = False\<rparr>"]
  show ?thesis
    by (simp add: emit_def sim_member_def)
qed

section \<open>Removing voters\<close>

text \<open>
  C5. A member with the local node's name: \<open>removeRaftPeer\<close> logs the warning and returns
  nil; the state is otherwise unchanged, so no \<open>RemoveServer\<close> is called. Hence
  \<open>RefreshMember\<close> on the local node's own left member calls no \<open>RemoveServer\<close>.
\<close>

theorem removeRaftPeer_never_removes_self:
  assumes "Name m = NodeName cfg"
  shows "removeRaftPeer E cfg m parts s =
           (None, emit (Log LvlWarn ''removing self should be done by follower''
                          [ArgStr ''name'', ArgStr (NodeName cfg)]) s)
       \<and> (toServerPart E m = Some parts \<and> Status m = StatusLeft \<longrightarrow>
            RefreshMember E cfg m s =
              (None, emit (Log LvlWarn ''removing self should be done by follower''
                             [ArgStr ''name'', ArgStr (NodeName cfg)]) s))"
  using assms by (simp add: removeRaftPeer_def RefreshMember_def)

theorem removeRaftPeer_never_removes_self_witness:
  "removeRaftPeer sim_env (sim_cfg ''n1'') (sim_member ''n1'' ''10.0.0.1'' False StatusLeft)
     \<lparr>sp_ID = ''n1'', sp_Port = 6868, sp_Bootstrap = False\<rparr>
     (start (sim_world [] [sim_server ''n1'' ''10.0.0.1:6868'']))
   = (None,
      \<lparr>world = sim_world [] [sim_server ''n1'' ''10.0.0.1:6868''],
       trace = [Log LvlWarn ''removing self should be done by follower'' [ArgStr ''name'', ArgStr ''n1'']]\<rparr>)"
proof -
  have h: "Name (sim_member ''n1'' ''10.0.0.1'' False StatusLeft) = NodeName (sim_cfg ''n1'')"
    by (simp add: sim_member_def sim_cfg_def)
  from removeRaftPeer_never_removes_self [OF h, where E = sim_env
      and parts = "\<lparr>sp_ID = ''n1'', sp_Port = 6868, sp_Bootstrap = False\<rparr>"
      and s = "start (sim_world [] [sim_server ''n1'' ''10.0.0.1:6868''])"]
  show ?thesis
    by (simp add: emit_def start_def sim_cfg_def)
qed

section \<open>Sweeps\<close>

text \<open>
  C10. A member whose status is neither alive nor left (failed, leaving, none):
  \<open>RefreshMember\<close> returns nil and leaves the state as it is: no Raft call is made and the
  configuration keeps the member's voter entry.
\<close>

theorem RefreshMember_ignores_other_statuses:
  assumes "Status member \<noteq> StatusAlive" and "Status member \<noteq> StatusLeft"
  shows "RefreshMember E cfg member s = (None, s)"
  using assms by (cases "Status member") (simp_all add: RefreshMember_def split: option.splits)

theorem RefreshMember_ignores_other_statuses_witness:
  "RefreshMember sim_env (sim_cfg ''n1'') (sim_member ''n2'' ''10.0.0.2'' False StatusFailed)
     (start (sim_world [] [sim_server ''n1'' ''10.0.0.1:6868'', sim_server ''n2'' ''10.0.0.2:6868'']))
   = (None, start (sim_world [] [sim_server ''n1'' ''10.0.0.1:6868'', sim_server ''n2'' ''10.0.0.2:6868'']))"
proof -
  have h1: "Status (sim_member ''n2'' ''10.0.0.2'' False StatusFailed) \<noteq> StatusAlive"
    by (simp add: sim_member_def)
  have h2: "Status (sim_member ''n2'' ''10.0.0.2'' False StatusFailed) \<noteq> StatusLeft"
    by (simp add: sim_member_def)
  from RefreshMember_ignores_other_statuses [OF h1 h2] show ?thesis .
qed




section \<open>When reconciliation is skipped\<close>

lemma servers_trace_mono:
  "addRaftPeer_servers E addr sid servers s = (r, s') \<Longrightarrow> \<exists>es. trace s' = trace s @ es"
proof (induction servers arbitrary: s)
  case Nil
  then show ?case by simp
next
  case (Cons a servers)
  show ?case
  proof (cases "Address a = addr \<and> ID a \<noteq> sid")
    case True
    obtain x t where rm: "RemoveServer E (ID a) s = (x, t)" by (cases "RemoveServer E (ID a) s")
    then have tr: "trace t = trace s @ [CallRemoveServer (ID a)]" by (rule RemoveServer_trace)
    show ?thesis
    proof (cases x)
      case None
      with Cons.prems True rm have "addRaftPeer_servers E addr sid servers t = (r, s')" by simp
      from Cons.IH [OF this] tr show ?thesis by auto
    next
      case (Some err)
      with Cons.prems True rm have "s' = t" by auto
      with tr show ?thesis by simp
    qed
  next
    case False
    with Cons.prems have "(r, s') = (Returned None, s) \<or> addRaftPeer_servers E addr sid servers s = (r, s')"
      by (auto split: if_splits)
    with Cons.IH show ?thesis by auto
  qed
qed

lemma already_voter_loop:
  "already_voter addr sid servers \<Longrightarrow> addRaftPeer_servers E addr sid servers s = (Returned None, s)"
  by (induction servers) (auto simp: already_voter_def)

lemma not_voter_loop:
  "\<not> already_voter addr sid servers \<Longrightarrow> addRaftPeer_servers E addr sid servers s = (r, s') \<Longrightarrow>
   r = Completed \<or> (\<exists>sid' es. trace s' = trace s @ CallRemoveServer sid' # es)"
proof (induction servers arbitrary: s)
  case Nil
  then show ?case by simp
next
  case (Cons a servers)
  show ?case
  proof (cases "Address a = addr")
    case True
    with Cons.prems(1) have ne: "ID a \<noteq> sid" by (simp add: already_voter_def)
    obtain x t where rm: "RemoveServer E (ID a) s = (x, t)" by (cases "RemoveServer E (ID a) s")
    then have tr: "trace t = trace s @ [CallRemoveServer (ID a)]" by (rule RemoveServer_trace)
    show ?thesis
    proof (cases x)
      case None
      with Cons.prems True ne rm have "addRaftPeer_servers E addr sid servers t = (r, s')" by simp
      from servers_trace_mono [OF this] tr show ?thesis by auto
    next
      case (Some err)
      with Cons.prems True ne rm have "s' = t" by auto
      with tr show ?thesis by simp
    qed
  next
    case False
    with Cons.prems have "\<not> already_voter addr sid servers"
      and "addRaftPeer_servers E addr sid servers s = (r, s')"
      by (auto simp: already_voter_def split: if_splits)
    then show ?thesis by (rule Cons.IH)
  qed
qed

lemma config_changes_append:
  "trace s' = trace s @ es \<Longrightarrow> config_changes s s' = filter is_config_change es"
  by (simp add: config_changes_def)

lemma RefreshMember_alive_nil_unchanged:
  assumes "toServerPart E m = Some parts" and "Status m = StatusAlive"
    and "addr = TCPAddrString E (Addr m) (sp_Port parts)"
  shows "(fst (RefreshMember E cfg m s) = None \<and> config_changes s (snd (RefreshMember E cfg m s)) = [])
       = ((sp_Bootstrap parts \<and> bootstrap_conflict (toServerPart E) m (serf_Members E (world s)) \<noteq> None)
          \<or> (\<exists>servers s1. GetConfiguration E s = (Inr servers, s1)
                \<and> ((Name m = NodeName cfg \<and> length servers < 3) \<or> already_voter addr (sp_ID parts) servers)))"
proof (cases "sp_Bootstrap parts \<and> bootstrap_conflict (toServerPart E) m (serf_Members E (world s)) \<noteq> None")
  case True
  then obtain member where "bootstrap_conflict (toServerPart E) m (serf_Members E (world s)) = Some member"
    by blast
  with True assms have "RefreshMember E cfg m s =
      (None, emit (Log LvlError ''taskvault: '%v' and '%v' are both in bootstrap mode..''
                     [ArgStr (Name m), ArgStr (Name member)]) s)"
    by (simp add: RefreshMember_def addRaftPeer_def)
  with True show ?thesis
    by (simp add: config_changes_def emit_def)
next
  case False
  then have nc: "sp_Bootstrap parts \<longrightarrow> bootstrap_conflict (toServerPart E) m (serf_Members E (world s)) = None"
    by blast
  obtain cf s1 where gc: "GetConfiguration E s = (cf, s1)" by (cases "GetConfiguration E s")
  then have tr1: "trace s1 = trace s @ [CallGetConfiguration]" by (rule GetConfiguration_trace)
  show ?thesis
  proof (cases cf)
    case (Inl err)
    with gc nc assms have "fst (RefreshMember E cfg m s) = Some err"
      by (auto simp: RefreshMember_def addRaftPeer_def)
    with False gc Inl show ?thesis by simp
  next
    case (Inr servers)
    show ?thesis
    proof (cases "Name m = NodeName cfg \<and> length servers < 3")
      case True
      with gc nc Inr assms have "RefreshMember E cfg m s =
          (None, emit (Log LvlDebug ''taskvault: Skipping self join check'' [ArgStr (Name m)]) s1)"
        by (auto simp: RefreshMember_def addRaftPeer_def)
      with True gc Inr tr1 show ?thesis
        by (simp add: config_changes_def emit_def)
    next
      case guard: False
      then have ng: "Name m \<noteq> NodeName cfg \<or> 3 \<le> length servers" by auto
      from gc Inr have gc': "GetConfiguration E s = (Inr servers, s1)" by simp
      note unfolded = addRaftPeer_past_guards [OF nc gc' ng, folded assms(3)]
      show ?thesis
      proof (cases "already_voter addr (sp_ID parts) servers")
        case True
        from unfolded already_voter_loop [OF True, of E s1]
        have "addRaftPeer E cfg m parts s = (None, s1)" by simp
        with assms have "RefreshMember E cfg m s = (None, s1)"
          by (simp add: RefreshMember_def)
        with True gc' tr1 show ?thesis
          by (auto simp: config_changes_def)
      next
        case nv: False
        obtain r s2 where lp: "addRaftPeer_servers E addr (sp_ID parts) servers s1 = (r, s2)"
          by (cases "addRaftPeer_servers E addr (sp_ID parts) servers s1")
        from servers_trace_mono [OF lp] obtain es where tr2: "trace s2 = trace s1 @ es" by blast
        have changed: "fst (RefreshMember E cfg m s) = None \<longrightarrow>
            config_changes s (snd (RefreshMember E cfg m s)) \<noteq> []"
        proof (cases r)
          case Completed
          obtain x s3 where av: "AddVoter E (sp_ID parts) addr s2 = (x, s3)"
            by (cases "AddVoter E (sp_ID parts) addr s2")
          then have tr3: "trace s3 = trace s2 @ [CallAddVoter (sp_ID parts) addr]"
            by (rule AddVoter_trace)
          from unfolded lp Completed av have "addRaftPeer E cfg m parts s = (x, s3)" by simp
          with assms have "fst (RefreshMember E cfg m s) = None \<longrightarrow> snd (RefreshMember E cfg m s) = s3"
            by (auto simp: RefreshMember_def split: option.splits)
          moreover from tr1 tr2 tr3
          have "config_changes s s3 \<noteq> []"
            by (simp add: config_changes_def)
          ultimately show ?thesis by auto
        next
          case (Returned x)
          with not_voter_loop [OF nv lp] obtain sid' es' where
            tr2': "trace s2 = trace s1 @ CallRemoveServer sid' # es'" by auto
          from unfolded lp Returned have "addRaftPeer E cfg m parts s = (x, s2)" by simp
          with assms have "fst (RefreshMember E cfg m s) = None \<longrightarrow> snd (RefreshMember E cfg m s) = s2"
            by (auto simp: RefreshMember_def split: option.splits)
          moreover from tr1 tr2'
          have "config_changes s s2 \<noteq> []"
            by (simp add: config_changes_def)
          ultimately show ?thesis by auto
        qed
        from False gc' guard nv changed show ?thesis by auto
      qed
    qed
  qed
qed

lemma removeRaftPeer_servers_absent:
  "\<not> (\<exists>sv\<in>set servers. ID sv = sid) \<Longrightarrow> removeRaftPeer_servers E sid servers s = (None, s)"
  by (induction servers) auto

lemma removeRaftPeer_servers_present:
  "\<exists>sv\<in>set servers. ID sv = sid \<Longrightarrow> removeRaftPeer_servers E sid servers s = RemoveServer E sid s"
  by (induction servers) auto

lemma RefreshMember_left_nil_unchanged:
  assumes "toServerPart E m = Some parts" and "Status m = StatusLeft"
  shows "(fst (RefreshMember E cfg m s) = None \<and> config_changes s (snd (RefreshMember E cfg m s)) = [])
       = (Name m = NodeName cfg
          \<or> (\<exists>servers s1. GetConfiguration E s = (Inr servers, s1)
                \<and> \<not> (\<exists>sv\<in>set servers. ID sv = sp_ID parts)))"
proof (cases "Name m = NodeName cfg")
  case True
  with assms have "RefreshMember E cfg m s =
      (None, emit (Log LvlWarn ''removing self should be done by follower''
                     [ArgStr ''name'', ArgStr (NodeName cfg)]) s)"
    by (simp add: RefreshMember_def removeRaftPeer_def)
  with True show ?thesis by (simp add: config_changes_def emit_def)
next
  case False
  obtain cf s1 where gc: "GetConfiguration E s = (cf, s1)" by (cases "GetConfiguration E s")
  then have tr1: "trace s1 = trace s @ [CallGetConfiguration]" by (rule GetConfiguration_trace)
  show ?thesis
  proof (cases cf)
    case (Inl err)
    with gc False assms have "fst (RefreshMember E cfg m s) = Some err"
      by (simp add: RefreshMember_def removeRaftPeer_def)
    with False gc Inl show ?thesis by simp
  next
    case (Inr servers)
    show ?thesis
    proof (cases "\<exists>sv\<in>set servers. ID sv = sp_ID parts")
      case True
      obtain r s2 where rm: "RemoveServer E (sp_ID parts) s1 = (r, s2)"
        by (cases "RemoveServer E (sp_ID parts) s1")
      then have tr2: "trace s2 = trace s1 @ [CallRemoveServer (sp_ID parts)]" by (rule RemoveServer_trace)
      from gc Inr False assms rm removeRaftPeer_servers_present [OF True, of E s1]
      have "fst (RefreshMember E cfg m s) = None \<longrightarrow> snd (RefreshMember E cfg m s) = s2"
        by (auto simp: RefreshMember_def removeRaftPeer_def split: option.splits)
      moreover from tr1 tr2 have "config_changes s s2 \<noteq> []"
        by (simp add: config_changes_def)
      ultimately show ?thesis using False gc Inr True by auto
    next
      case absent: False
      from gc Inr False assms removeRaftPeer_servers_absent [OF absent, of E s1]
      have "RefreshMember E cfg m s = (None, s1)"
        by (simp add: RefreshMember_def removeRaftPeer_def)
      with tr1 gc Inr absent show ?thesis by (auto simp: config_changes_def)
    qed
  qed
qed

text \<open>
  C7, as amended. \<open>RefreshMember\<close> returns nil without issuing a configuration change
  exactly in these cases: the member is not a server; its status is neither alive nor
  left; it has left and is the local node, or \<open>GetConfiguration\<close> succeeds and no server
  has its ID; it is alive and in bootstrap mode while the gossip view holds another
  server member (of any status) in bootstrap mode; or it is alive, \<open>GetConfiguration\<close>
  succeeds and either the self-join guard applies (local node, fewer than three
  servers) or the configuration already holds the target entry.
\<close>

theorem RefreshMember_nil_unchanged_iff:
  "(fst (RefreshMember E cfg m s) = None \<and> config_changes s (snd (RefreshMember E cfg m s)) = [])
   = (case toServerPart E m of
        None \<Rightarrow> True
      | Some parts \<Rightarrow>
          (case Status m of
             StatusAlive \<Rightarrow>
               (sp_Bootstrap parts
                \<and> (\<exists>other\<in>set (serf_Members E (world s)).
                      Name other \<noteq> Name m \<and> (\<exists>p. toServerPart E other = Some p \<and> sp_Bootstrap p)))
               \<or> (\<exists>servers s1. GetConfiguration E s = (Inr servers, s1)
                     \<and> ((Name m = NodeName cfg \<and> length servers < 3)
                          \<or> already_voter (TCPAddrString E (Addr m) (sp_Port parts)) (sp_ID parts) servers))
           | StatusLeft \<Rightarrow>
               Name m = NodeName cfg
               \<or> (\<exists>servers s1. GetConfiguration E s = (Inr servers, s1)
                     \<and> \<not> (\<exists>sv\<in>set servers. ID sv = sp_ID parts))
           | _ \<Rightarrow> True))"
proof (cases "toServerPart E m")
  case None
  then have "RefreshMember E cfg m s = (None, s)" by (simp add: RefreshMember_def)
  with None show ?thesis by (simp add: config_changes_def)
next
  case (Some parts)
  show ?thesis
  proof (cases "Status m = StatusAlive")
    case True
    from RefreshMember_alive_nil_unchanged [OF Some True refl, of cfg s] Some True
    show ?thesis
      by (simp add: bootstrap_conflict_None_iff)
  next
    case notalive: False
    show ?thesis
    proof (cases "Status m = StatusLeft")
      case True
      from RefreshMember_left_nil_unchanged [OF Some True, of cfg s] Some True
      show ?thesis by simp
    next
      case False
      with notalive have "RefreshMember E cfg m s = (None, s)"
        by (cases "Status m") (simp_all add: RefreshMember_def Some)
      with Some notalive False show ?thesis
        by (cases "Status m") (simp_all add: config_changes_def)
    qed
  qed
qed

theorem RefreshMember_nil_unchanged_iff_witness:
  "fst (RefreshMember sim_env (sim_cfg ''n1'') (sim_member ''n2'' ''10.0.0.2'' False StatusAlive)
          (start (sim_world [] [sim_server ''n1'' ''10.0.0.1:6868'', sim_server ''n2'' ''10.0.0.2:6868'']))) = None
   \<and> config_changes
         (start (sim_world [] [sim_server ''n1'' ''10.0.0.1:6868'', sim_server ''n2'' ''10.0.0.2:6868'']))
         (snd (RefreshMember sim_env (sim_cfg ''n1'') (sim_member ''n2'' ''10.0.0.2'' False StatusAlive)
                 (start (sim_world [] [sim_server ''n1'' ''10.0.0.1:6868'', sim_server ''n2'' ''10.0.0.2:6868''])))) = []"
proof -
  let ?m = "sim_member ''n2'' ''10.0.0.2'' False StatusAlive"
  let ?parts = "\<lparr>sp_ID = ''n2'', sp_Port = 6868, sp_Bootstrap = False\<rparr>"
  let ?servers = "[sim_server ''n1'' ''10.0.0.1:6868'', sim_server ''n2'' ''10.0.0.2:6868'']"
  let ?s = "start (sim_world [] ?servers)"
  let ?s1 = "\<lparr>world = sim_world [] ?servers, trace = [CallGetConfiguration]\<rparr>"
  have h1: "toServerPart sim_env ?m = Some ?parts"
    by (simp add: sim_env_def sim_member_def toServerPart_spec_def digit_val_def)
  have h2: "Status ?m = StatusAlive" by (simp add: sim_member_def)
  have h3: "TCPAddrString sim_env (Addr ?m) (sp_Port ?parts) = ''10.0.0.2:6868''"
    by (simp add: sim_env_def sim_addr_6868 sim_member_def)
  have gc: "GetConfiguration sim_env ?s = (Inr ?servers, ?s1)"
    by (simp add: GetConfiguration_def sim_env_def sim_world_def start_def emit_def)
  have av: "already_voter ''10.0.0.2:6868'' (sp_ID ?parts) ?servers"
    by (simp add: already_voter_def sim_server_def)
  from gc av h3 have rhs: "\<exists>servers s1. GetConfiguration sim_env ?s = (Inr servers, s1)
      \<and> ((Name ?m = NodeName (sim_cfg ''n1'') \<and> length servers < 3)
           \<or> already_voter (TCPAddrString sim_env (Addr ?m) (sp_Port ?parts)) (sp_ID ?parts) servers)"
    by (intro exI [of _ ?servers] exI [of _ ?s1]) simp
  from RefreshMember_nil_unchanged_iff [of sim_env "sim_cfg ''n1''" ?m ?s]
  have "(fst (RefreshMember sim_env (sim_cfg ''n1'') ?m ?s) = None
         \<and> config_changes ?s (snd (RefreshMember sim_env (sim_cfg ''n1'') ?m ?s)) = [])
      = ((sp_Bootstrap ?parts
           \<and> (\<exists>other\<in>set (serf_Members sim_env (world ?s)).
                 Name other \<noteq> Name ?m \<and> (\<exists>p. toServerPart sim_env other = Some p \<and> sp_Bootstrap p)))
          \<or> (\<exists>servers s1. GetConfiguration sim_env ?s = (Inr servers, s1)
                \<and> ((Name ?m = NodeName (sim_cfg ''n1'') \<and> length servers < 3)
                     \<or> already_voter (TCPAddrString sim_env (Addr ?m) (sp_Port ?parts)) (sp_ID ?parts) servers)))"
    by (simp only: h1 h2 option.case MemberStatus.case)
  with rhs show ?thesis by blast
qed

text \<open>
  C7 as stated fails: the local node, alive and alone in the gossip view, not in
  bootstrap mode, has moved to a new address. The configuration holds its old entry
  only, so the target entry is missing; the self-join guard skips the repair and
  \<open>RefreshMember\<close> returns nil.
\<close>

theorem skip_without_bootstrap_conflict:
  "RefreshMember sim_env (sim_cfg ''n1'') (sim_member ''n1'' ''10.0.0.9'' False StatusAlive)
     (start (sim_world [sim_member ''n1'' ''10.0.0.9'' False StatusAlive] [sim_server ''n1'' ''10.0.0.1:6868'']))
   = (None,
      \<lparr>world = sim_world [sim_member ''n1'' ''10.0.0.9'' False StatusAlive] [sim_server ''n1'' ''10.0.0.1:6868''],
       trace = [CallGetConfiguration,
                Log LvlDebug ''taskvault: Skipping self join check'' [ArgStr ''n1'']]\<rparr>)
   \<and> \<not> already_voter ''10.0.0.9:6868'' ''n1'' [sim_server ''n1'' ''10.0.0.1:6868'']
   \<and> toServerPart sim_env (sim_member ''n1'' ''10.0.0.9'' False StatusAlive)
       = Some \<lparr>sp_ID = ''n1'', sp_Port = 6868, sp_Bootstrap = False\<rparr>
   \<and> bootstrap_conflict (toServerPart sim_env) (sim_member ''n1'' ''10.0.0.9'' False StatusAlive)
        [sim_member ''n1'' ''10.0.0.9'' False StatusAlive] = None"
  by (simp add: RefreshMember_def addRaftPeer_def GetConfiguration_def emit_def already_voter_def
      sim_env_def sim_member_def sim_server_def sim_world_def sim_cfg_def start_def
      toServerPart_spec_def digit_val_def)

section \<open>Bootstrapping at start-up\<close>

lemma bootstrap_calls_called:
  "bootstrap_calls (called c a) =
     bootstrap_calls a @ (case c of BootstrapCluster i srvs \<Rightarrow> [c] | _ \<Rightarrow> [])"
  by (cases c) (simp_all add: bootstrap_calls_def called_def)

lemma bootstrap_calls_update:
  "bootstrap_calls (a\<lparr>raftStore_set := x\<rparr>) = bootstrap_calls a"
  "bootstrap_calls (a\<lparr>config := c\<rparr>) = bootstrap_calls a"
  by (simp_all add: bootstrap_calls_def)

lemma config_called: "config (called c a) = config a"
  by (simp add: called_def)

lemma raftStore_set_called: "raftStore_set (called c a) = raftStore_set a"
  by (simp add: called_def)

lemma setupRaft_stores_result:
  "fst (setupRaft_stores L a) = None \<longleftrightarrow>
     DevMode (config a) \<or>
     (lib_NewFileSnapshotStore L = None \<and> (raftStore_set a \<or> lib_NewBoltStore L = None)
      \<and> lib_NewLogCache L = None)"
  by (auto simp: setupRaft_stores_def Let_def raftStore_set_called split: option.splits)

lemma setupRaft_stores_frame:
  "bootstrap_calls (snd (setupRaft_stores L a)) = bootstrap_calls a
   \<and> config (snd (setupRaft_stores L a)) = config a"
  by (auto simp: setupRaft_stores_def Let_def bootstrap_calls_called config_called
      bootstrap_calls_update split: option.splits)

lemma setupRaft_bootstrap_calls:
  "bootstrap_calls (snd (setupRaft_bootstrap L a)) =
     bootstrap_calls a @
     (if (Bootstrap (config a) \<or> DevMode (config a)) \<and> lib_HasExistingState L = Inr False
      then [BootstrapCluster (NodeName (config a))
              [\<lparr>Suffrage = Voter, ID = NodeName (config a), Address = lib_LocalAddr L\<rparr>]]
      else [])"
  by (auto simp: setupRaft_bootstrap_def Let_def bootstrap_calls_called config_called
      split: sum.splits)

text \<open>
  C4, as amended. \<open>setupRaft\<close> calls \<open>BootstrapCluster\<close> exactly when \<open>Bootstrap\<close> is set,
  \<open>BootstrapExpect\<close> is 1 or \<open>DevMode\<close> is set, the stores were set up without error and
  \<open>HasExistingState\<close> reports no state; the call is then the only one and its
  configuration is the single server with the local node's ID and address. In every
  other case no \<open>BootstrapCluster\<close> call is made.
\<close>

theorem setupRaft_bootstraps_iff:
  "bootstrap_calls (snd (setupRaft L a)) =
     bootstrap_calls a @
     (if (Bootstrap (config a) \<or> BootstrapExpect (config a) = 1 \<or> DevMode (config a))
         \<and> (DevMode (config a) \<or>
              (lib_NewFileSnapshotStore L = None \<and> (raftStore_set a \<or> lib_NewBoltStore L = None)
               \<and> lib_NewLogCache L = None))
         \<and> lib_HasExistingState L = Inr False
      then [BootstrapCluster (NodeName (config a))
              [\<lparr>Suffrage = Voter, ID = NodeName (config a), Address = lib_LocalAddr L\<rparr>]]
      else [])"
proof -
  define a0 where "a0 = (if BootstrapExpect (config a) = 1 then a\<lparr>config := (config a)\<lparr>Bootstrap := True\<rparr>\<rparr> else a)"
  define a1 where "a1 = called NewNetworkTransport a0"
  obtain r2 a2 where st: "setupRaft_stores L a1 = (r2, a2)" by (cases "setupRaft_stores L a1")
  have c1: "config a1 = config a0" "bootstrap_calls a1 = bootstrap_calls a"
    "raftStore_set a1 = raftStore_set a"
    by (simp_all add: a1_def a0_def config_called bootstrap_calls_called raftStore_set_called
        bootstrap_calls_update)
  have c0: "DevMode (config a0) = DevMode (config a)" "NodeName (config a0) = NodeName (config a)"
    "Bootstrap (config a0) = (Bootstrap (config a) \<or> BootstrapExpect (config a) = 1)"
    by (auto simp: a0_def)
  from setupRaft_stores_frame [of L a1] st
  have f2: "bootstrap_calls a2 = bootstrap_calls a" "config a2 = config a0"
    by (simp_all add: c1)
  from setupRaft_stores_result [of L a1] st
  have r2: "r2 = None \<longleftrightarrow>
     DevMode (config a) \<or>
     (lib_NewFileSnapshotStore L = None \<and> (raftStore_set a \<or> lib_NewBoltStore L = None)
      \<and> lib_NewLogCache L = None)"
    by (simp add: c1 c0)
  have unfold: "setupRaft L a =
      (case r2 of
         Some err \<Rightarrow> (Some err, a2)
       | None \<Rightarrow>
           (case setupRaft_bootstrap L a2 of
              (Some err, a3) \<Rightarrow> (Some err, a3)
            | (None, a3) \<Rightarrow>
                (let a4 = called (NewRaft (NodeName (config a3))) a3 in
                 case lib_NewRaft L of
                   Some err \<Rightarrow> (Some (ErrNewRaft err), a4)
                 | None \<Rightarrow> (None, a4))))"
    using st by (simp add: setupRaft_def a1_def a0_def Let_def split: option.splits)
  show ?thesis
  proof (cases r2)
    case (Some err)
    with unfold r2 f2 show ?thesis by auto
  next
    case None
    obtain r3 a3 where bs: "setupRaft_bootstrap L a2 = (r3, a3)" by (cases "setupRaft_bootstrap L a2")
    from setupRaft_bootstrap_calls [of L a2] bs
    have b3: "bootstrap_calls a3 =
       bootstrap_calls a @
       (if (Bootstrap (config a) \<or> BootstrapExpect (config a) = 1 \<or> DevMode (config a))
            \<and> lib_HasExistingState L = Inr False
        then [BootstrapCluster (NodeName (config a))
                [\<lparr>Suffrage = Voter, ID = NodeName (config a), Address = lib_LocalAddr L\<rparr>]]
        else [])"
      by (simp add: f2 c0 disj_ac)
    from unfold None bs have "bootstrap_calls (snd (setupRaft L a)) = bootstrap_calls a3"
      by (auto simp: Let_def bootstrap_calls_called split: option.splits)
    with b3 r2 None show ?thesis by auto
  qed
qed

text \<open>
  C4 as stated fails: in dev mode, with \<open>Bootstrap\<close> unset and \<open>BootstrapExpect\<close> 0, and no
  existing state, \<open>setupRaft\<close> bootstraps the single-server configuration (line 226 tests
  \<open>Bootstrap || DevMode\<close>).
\<close>

theorem setupRaft_devmode_bootstraps:
  "bootstrap_calls
     (snd (setupRaft
        \<lparr>lib_NewFileSnapshotStore = None, lib_NewBoltStore = None, lib_NewLogCache = None,
         lib_HasExistingState = Inr False, lib_BootstrapCluster = None, lib_NewRaft = None,
         lib_LocalAddr = ''10.0.0.1:6868''\<rparr>
        \<lparr>config = \<lparr>NodeName = ''n1'', Bootstrap = False, BootstrapExpect = 0, DevMode = True,
                    DataDir = ''data''\<rparr>,
         raftStore_set = False, calls = []\<rparr>))
   = [BootstrapCluster ''n1'' [\<lparr>Suffrage = Voter, ID = ''n1'', Address = ''10.0.0.1:6868''\<rparr>]]
   \<and> \<not> (Bootstrap \<lparr>NodeName = ''n1'', Bootstrap = False, BootstrapExpect = 0, DevMode = True,
                    DataDir = ''data''\<rparr>
         \<or> BootstrapExpect \<lparr>NodeName = ''n1'', Bootstrap = False, BootstrapExpect = 0, DevMode = True,
                    DataDir = ''data''\<rparr> = 1)"
  by (simp add: setupRaft_def setupRaft_stores_def setupRaft_bootstrap_def bootstrap_calls_def
      called_def Let_def)

theorem setupRaft_bootstraps_iff_witness:
  "bootstrap_calls
     (snd (setupRaft
        \<lparr>lib_NewFileSnapshotStore = None, lib_NewBoltStore = None, lib_NewLogCache = None,
         lib_HasExistingState = Inr False, lib_BootstrapCluster = None, lib_NewRaft = None,
         lib_LocalAddr = ''10.0.0.1:6868''\<rparr>
        \<lparr>config = \<lparr>NodeName = ''n1'', Bootstrap = False, BootstrapExpect = 1, DevMode = False,
                    DataDir = ''data''\<rparr>,
         raftStore_set = False, calls = []\<rparr>))
   = [BootstrapCluster ''n1'' [\<lparr>Suffrage = Voter, ID = ''n1'', Address = ''10.0.0.1:6868''\<rparr>]]"
  using setupRaft_bootstraps_iff [of
      "\<lparr>lib_NewFileSnapshotStore = None, lib_NewBoltStore = None, lib_NewLogCache = None,
        lib_HasExistingState = Inr False, lib_BootstrapCluster = None, lib_NewRaft = None,
        lib_LocalAddr = ''10.0.0.1:6868''\<rparr>"
      "\<lparr>config = \<lparr>NodeName = ''n1'', Bootstrap = False, BootstrapExpect = 1, DevMode = False,
                   DataDir = ''data''\<rparr>,
        raftStore_set = False, calls = []\<rparr>"]
  by (simp add: bootstrap_calls_def)

section \<open>Stop checks of the reconciler loop\<close>

lemma Barrier_trace:
  "Barrier E s = (r, s1) \<Longrightarrow> trace s1 = trace s @ [CallBarrier]"
  by (auto simp: Barrier_def emit_def split: prod.splits)

lemma removeRaftPeer_servers_mono:
  "removeRaftPeer_servers E sid servers s = (r, s') \<Longrightarrow> \<exists>es. trace s' = trace s @ es"
  by (induction servers) (auto split: if_splits dest: RemoveServer_trace)

lemma addRaftPeer_mono:
  assumes "addRaftPeer E cfg m parts s = (r, s')"
  shows "\<exists>es. trace s' = trace s @ es"
proof -
  obtain cf s1 where gc: "GetConfiguration E s = (cf, s1)" by (cases "GetConfiguration E s")
  then have tr1: "trace s1 = trace s @ [CallGetConfiguration]" by (rule GetConfiguration_trace)
  obtain lr s2 where lp: "addRaftPeer_servers E (TCPAddrString E (Addr m) (sp_Port parts)) (sp_ID parts)
      (case cf of Inr servers \<Rightarrow> servers | Inl e \<Rightarrow> []) s1 = (lr, s2)"
    by (cases "addRaftPeer_servers E (TCPAddrString E (Addr m) (sp_Port parts)) (sp_ID parts)
      (case cf of Inr servers \<Rightarrow> servers | Inl e \<Rightarrow> []) s1")
  from servers_trace_mono [OF lp] obtain es2 where tr2: "trace s2 = trace s1 @ es2" by blast
  obtain ar s3 where av: "AddVoter E (sp_ID parts) (TCPAddrString E (Addr m) (sp_Port parts)) s2 = (ar, s3)"
    by (cases "AddVoter E (sp_ID parts) (TCPAddrString E (Addr m) (sp_Port parts)) s2")
  then have tr3: "trace s3 = trace s2 @ [CallAddVoter (sp_ID parts) (TCPAddrString E (Addr m) (sp_Port parts))]"
    by (rule AddVoter_trace)
  from assms gc lp av tr1 tr2 tr3 show ?thesis
    by (auto simp: addRaftPeer_def Let_def emit_def
        split: option.splits sum.splits if_splits loop_result.splits)
qed

lemma removeRaftPeer_mono:
  assumes "removeRaftPeer E cfg m parts s = (r, s')"
  shows "\<exists>es. trace s' = trace s @ es"
proof -
  obtain cf s1 where gc: "GetConfiguration E s = (cf, s1)" by (cases "GetConfiguration E s")
  then have tr1: "trace s1 = trace s @ [CallGetConfiguration]" by (rule GetConfiguration_trace)
  from assms gc tr1 show ?thesis
    by (auto simp: removeRaftPeer_def emit_def split: if_splits sum.splits
        dest!: removeRaftPeer_servers_mono)
qed

lemma RefreshMember_mono:
  assumes "RefreshMember E cfg m s = (r, s')"
  shows "\<exists>es. trace s' = trace s @ es"
  using assms
  by (auto simp: RefreshMember_def emit_def
      split: option.splits MemberStatus.splits prod.splits
      dest!: addRaftPeer_mono removeRaftPeer_mono)

lemma Refresh_members_mono:
  "Refresh_members E cfg ms s = (r, s') \<Longrightarrow> \<exists>es. trace s' = trace s @ es"
proof (induction ms arbitrary: s)
  case Nil
  then show ?case by simp
next
  case (Cons m ms)
  obtain x t where rm: "RefreshMember E cfg m s = (x, t)" by (cases "RefreshMember E cfg m s")
  from RefreshMember_mono [OF rm] obtain es1 where t1: "trace t = trace s @ es1" by blast
  show ?case
  proof (cases x)
    case None
    with Cons.prems rm have "Refresh_members E cfg ms t = (r, s')" by simp
    from Cons.IH [OF this] t1 show ?thesis by auto
  next
    case (Some err)
    with Cons.prems rm have "s' = t" by simp
    with t1 show ?thesis by simp
  qed
qed

lemma Refresh_mono:
  "Refresh E cfg s = (r, s') \<Longrightarrow> \<exists>es. trace s' = trace s @ es"
  unfolding Refresh_def by (rule Refresh_members_mono)

lemma leaderLoop_from_exit:
  "leaderLoop_from E cfg fuel j s = Some s' \<Longrightarrow> j \<noteq> Exit \<Longrightarrow>
   (\<exists>t. s' = emit PollStop t \<and> stopCh_closed E (world t))
   \<or> (\<exists>t refreshCh c w'. wait_select E refreshCh (world t) = (c, w') \<and> (c = SelStop \<or> c = SelShutdown)
         \<and> s' = emit (WaitSelect refreshCh) (t\<lparr>world := w'\<rparr>))"
proof (induction E cfg fuel j s rule: leaderLoop_from.induct)
  case (1 E cfg fuel s)
  then show ?case by simp
next
  case (2 E cfg fuel s)
  then show ?case by simp
next
  case (3 E cfg s)
  then show ?case by simp
next
  case (4 E cfg refreshCh s)
  then show ?case by simp
next
  case (5 E cfg fuel s)
  obtain nx t where rf: "leaderLoop_REFRESH E cfg s = (nx, t)" by (cases "leaderLoop_REFRESH E cfg s")
  with "5.prems" have run: "leaderLoop_from E cfg fuel nx t = Some s'" by simp
  show ?case
  proof (cases "nx = Exit")
    case True
    with run have "s' = t" by simp
    moreover from rf True have "\<exists>u. t = emit PollStop u \<and> stopCh_closed E (world u)"
      by (auto simp: leaderLoop_REFRESH_def Let_def emit_world split: prod.splits option.splits if_splits)
    ultimately show ?thesis by blast
  next
    case False
    from "5.IH" [OF rf [symmetric] run False] show ?thesis .
  qed
next
  case (6 E cfg fuel refreshCh s)
  obtain nx t where wt: "leaderLoop_WAIT E cfg refreshCh s = (nx, t)" by (cases "leaderLoop_WAIT E cfg refreshCh s")
  with "6.prems" have run: "leaderLoop_from E cfg fuel nx t = Some s'" by simp
  show ?case
  proof (cases "nx = Exit")
    case True
    with run have "s' = t" by simp
    moreover from wt True have "\<exists>c w'. wait_select E refreshCh (world s) = (c, w')
        \<and> (c = SelStop \<or> c = SelShutdown) \<and> t = emit (WaitSelect refreshCh) (s\<lparr>world := w'\<rparr>)"
      by (auto simp: leaderLoop_WAIT_def Let_def split: prod.splits option.splits if_splits select_case.splits)
    ultimately show ?thesis by blast
  next
    case False
    from "6.IH" [OF wt [symmetric] run False] show ?thesis .
  qed
qed

lemma leaderLoop_WAIT_select:
  "(\<exists>es. trace (snd (leaderLoop_WAIT E cfg refreshCh t)) = trace t @ WaitSelect refreshCh # es)
   \<and> (fst (leaderLoop_WAIT E cfg refreshCh t) = Exit) =
       (fst (wait_select E refreshCh (world t)) = SelStop
        \<or> fst (wait_select E refreshCh (world t)) = SelShutdown)"
proof -
  obtain c w' where ws: "wait_select E refreshCh (world t) = (c, w')"
    by (cases "wait_select E refreshCh (world t)")
  define t1 where "t1 = emit (WaitSelect refreshCh) (t\<lparr>world := w'\<rparr>)"
  have tr1: "trace t1 = trace t @ [WaitSelect refreshCh]" by (simp add: t1_def emit_def)
  have W: "leaderLoop_WAIT E cfg refreshCh t =
      (case c of
         SelStop \<Rightarrow> (Exit, t1)
       | SelShutdown \<Rightarrow> (Exit, t1)
       | SelInterval \<Rightarrow> (GotoREFRESH, t1)
       | SelMember member \<Rightarrow>
           if refreshCh then
             (case RefreshMember E cfg member t1 of
                (Some err, s2) \<Rightarrow>
                  (GotoWAIT refreshCh,
                   emit (Log LvlError ''taskvault: failed to Refresh member'' [ArgErr err]) s2)
              | (None, s2) \<Rightarrow> (GotoWAIT refreshCh, s2))
           else (Blocked, t1))"
    using ws unfolding t1_def by (simp add: leaderLoop_WAIT_def Let_def)
  show ?thesis
  proof (cases c)
    case (SelMember member)
    obtain x t2 where rm: "RefreshMember E cfg member t1 = (x, t2)"
      by (cases "RefreshMember E cfg member t1")
    from RefreshMember_mono [OF rm] obtain es where "trace t2 = trace t1 @ es" by blast
    with ws SelMember rm tr1 W show ?thesis
      by (cases x; cases refreshCh) (simp_all add: emit_trace)
  qed (use ws tr1 W in simp_all)
qed

lemma Barrier_closed:
  "stop_stays_closed E \<Longrightarrow> stopCh_closed E (world s) \<Longrightarrow> Barrier E s = (r, s') \<Longrightarrow>
   stopCh_closed E (world s')"
  by (auto simp: stop_stays_closed_def Barrier_def emit_def split: prod.splits)

lemma GetConfiguration_closed:
  "stop_stays_closed E \<Longrightarrow> stopCh_closed E (world s) \<Longrightarrow> GetConfiguration E s = (r, s') \<Longrightarrow>
   stopCh_closed E (world s')"
  by (auto simp: stop_stays_closed_def GetConfiguration_def emit_def split: prod.splits)

lemma RemoveServer_closed:
  "stop_stays_closed E \<Longrightarrow> stopCh_closed E (world s) \<Longrightarrow> RemoveServer E sid s = (r, s') \<Longrightarrow>
   stopCh_closed E (world s')"
  by (auto simp: stop_stays_closed_def RemoveServer_def emit_def split: prod.splits)
    (metis snd_conv)

lemma AddVoter_closed:
  "stop_stays_closed E \<Longrightarrow> stopCh_closed E (world s) \<Longrightarrow> AddVoter E sid addr s = (r, s') \<Longrightarrow>
   stopCh_closed E (world s')"
  by (auto simp: stop_stays_closed_def AddVoter_def emit_def split: prod.splits)
    (metis snd_conv)

lemma addRaftPeer_servers_closed:
  "stop_stays_closed E \<Longrightarrow> stopCh_closed E (world s) \<Longrightarrow>
   addRaftPeer_servers E addr sid servers s = (r, s') \<Longrightarrow> stopCh_closed E (world s')"
proof (induction servers arbitrary: s)
  case Nil
  then show ?case by simp
next
  case (Cons a servers)
  show ?case
  proof (cases "Address a = addr \<and> ID a \<noteq> sid")
    case True
    obtain x t where rm: "RemoveServer E (ID a) s = (x, t)" by (cases "RemoveServer E (ID a) s")
    from RemoveServer_closed [OF Cons.prems(1) Cons.prems(2) rm] have ct: "stopCh_closed E (world t)" .
    show ?thesis
    proof (cases x)
      case None
      with Cons.prems True rm have "addRaftPeer_servers E addr sid servers t = (r, s')" by simp
      from Cons.IH [OF Cons.prems(1) ct this] show ?thesis .
    next
      case (Some err)
      with Cons.prems True rm have "s' = t" by auto
      with ct show ?thesis by simp
    qed
  next
    case False
    with Cons.prems have "(r, s') = (Returned None, s) \<or> addRaftPeer_servers E addr sid servers s = (r, s')"
      by (auto split: if_splits)
    with Cons.IH [OF Cons.prems(1) Cons.prems(2)] Cons.prems(2) show ?thesis by auto
  qed
qed

lemma addRaftPeer_closed:
  assumes "stop_stays_closed E" and "stopCh_closed E (world s)"
    and "addRaftPeer E cfg m parts s = (r, s')"
  shows "stopCh_closed E (world s')"
proof -
  obtain cf s1 where gc: "GetConfiguration E s = (cf, s1)" by (cases "GetConfiguration E s")
  from GetConfiguration_closed [OF assms(1) assms(2) gc] have c1: "stopCh_closed E (world s1)" .
  obtain lr s2 where lp: "addRaftPeer_servers E (TCPAddrString E (Addr m) (sp_Port parts)) (sp_ID parts)
      (case cf of Inr servers \<Rightarrow> servers | Inl e \<Rightarrow> []) s1 = (lr, s2)"
    by (cases "addRaftPeer_servers E (TCPAddrString E (Addr m) (sp_Port parts)) (sp_ID parts)
      (case cf of Inr servers \<Rightarrow> servers | Inl e \<Rightarrow> []) s1")
  from addRaftPeer_servers_closed [OF assms(1) c1 lp] have c2: "stopCh_closed E (world s2)" .
  obtain ar s3 where av: "AddVoter E (sp_ID parts) (TCPAddrString E (Addr m) (sp_Port parts)) s2 = (ar, s3)"
    by (cases "AddVoter E (sp_ID parts) (TCPAddrString E (Addr m) (sp_Port parts)) s2")
  from AddVoter_closed [OF assms(1) c2 av] have c3: "stopCh_closed E (world s3)" .
  from assms(2,3) gc lp av c1 c2 c3 show ?thesis
    by (auto simp: addRaftPeer_def Let_def emit_world
        split: option.splits sum.splits if_splits loop_result.splits)
qed

lemma removeRaftPeer_servers_closed:
  "stop_stays_closed E \<Longrightarrow> stopCh_closed E (world s) \<Longrightarrow>
   removeRaftPeer_servers E sid servers s = (r, s') \<Longrightarrow> stopCh_closed E (world s')"
  by (induction servers) (auto split: if_splits dest: RemoveServer_closed)

lemma removeRaftPeer_closed:
  assumes "stop_stays_closed E" and "stopCh_closed E (world s)"
    and "removeRaftPeer E cfg m parts s = (r, s')"
  shows "stopCh_closed E (world s')"
proof -
  obtain cf s1 where gc: "GetConfiguration E s = (cf, s1)" by (cases "GetConfiguration E s")
  from GetConfiguration_closed [OF assms(1) assms(2) gc] have c1: "stopCh_closed E (world s1)" .
  from assms gc c1 show ?thesis
    by (auto simp: removeRaftPeer_def emit_world split: if_splits sum.splits
        dest: removeRaftPeer_servers_closed)
qed

lemma RefreshMember_closed:
  assumes "stop_stays_closed E" and "stopCh_closed E (world s)"
    and "RefreshMember E cfg m s = (r, s')"
  shows "stopCh_closed E (world s')"
  using assms
  by (auto simp: RefreshMember_def emit_world
      split: option.splits MemberStatus.splits prod.splits
      dest: addRaftPeer_closed removeRaftPeer_closed)

lemma Refresh_members_closed:
  "stop_stays_closed E \<Longrightarrow> stopCh_closed E (world s) \<Longrightarrow>
   Refresh_members E cfg ms s = (r, s') \<Longrightarrow> stopCh_closed E (world s')"
proof (induction ms arbitrary: s)
  case Nil
  then show ?case by simp
next
  case (Cons m ms)
  obtain x t where rm: "RefreshMember E cfg m s = (x, t)" by (cases "RefreshMember E cfg m s")
  from RefreshMember_closed [OF Cons.prems(1) Cons.prems(2) rm] have ct: "stopCh_closed E (world t)" .
  show ?case
  proof (cases x)
    case None
    with Cons.prems rm have "Refresh_members E cfg ms t = (r, s')" by simp
    from Cons.IH [OF Cons.prems(1) ct this] show ?thesis .
  next
    case (Some err)
    with Cons.prems rm have "s' = t" by simp
    with ct show ?thesis by simp
  qed
qed

lemma leaderLoop_REFRESH_closed:
  assumes "stop_stays_closed E" and "stopCh_closed E (world s)"
    and "leaderLoop_REFRESH E cfg s = (j, t)"
  shows "stopCh_closed E (world t) \<and> (j = Exit \<or> j = GotoWAIT False)"
proof -
  obtain b s1 where br: "Barrier E s = (b, s1)" by (cases "Barrier E s")
  from Barrier_closed [OF assms(1) assms(2) br] have c1: "stopCh_closed E (world s1)" .
  obtain r s2 where rf: "Refresh E cfg s1 = (r, s2)" by (cases "Refresh E cfg s1")
  then have "Refresh_members E cfg (serf_Members E (world s1)) s1 = (r, s2)" by (simp add: Refresh_def)
  from Refresh_members_closed [OF assms(1) c1 this] have c2: "stopCh_closed E (world s2)" .
  from assms(3) br rf c1 c2 show ?thesis
    by (auto simp: leaderLoop_REFRESH_def Let_def emit_world split: option.splits)
qed

lemma leaderLoop_WAIT_closed:
  assumes "select_takes_stop E" and "stopCh_closed E (world s)"
  shows "fst (leaderLoop_WAIT E cfg refreshCh s) = Exit"
proof -
  from assms have "fst (wait_select E refreshCh (world s)) = SelStop
      \<or> fst (wait_select E refreshCh (world s)) = SelShutdown"
    by (simp add: select_takes_stop_def)
  then show ?thesis
    using leaderLoop_WAIT_select [of E cfg refreshCh s] by blast
qed

lemma leaderLoop_from_exits:
  assumes "stop_stays_closed E" and "select_takes_stop E" and "stopCh_closed E (world t)"
    and "j \<noteq> Blocked"
  shows "\<exists>t'. leaderLoop_from E cfg (Suc (Suc n)) j t = Some t'"
proof (cases j)
  case Exit
  then show ?thesis by simp
next
  case Blocked
  with assms(4) show ?thesis by simp
next
  case GotoREFRESH
  obtain j1 t1 where rf: "leaderLoop_REFRESH E cfg t = (j1, t1)" by (cases "leaderLoop_REFRESH E cfg t")
  from leaderLoop_REFRESH_closed [OF assms(1) assms(3) rf]
  have c1: "stopCh_closed E (world t1)" and j1: "j1 = Exit \<or> j1 = GotoWAIT False" by simp_all
  obtain j2 t2 where wt: "leaderLoop_WAIT E cfg False t1 = (j2, t2)" by (cases "leaderLoop_WAIT E cfg False t1")
  with leaderLoop_WAIT_closed [OF assms(2) c1, of cfg False] have "j2 = Exit" by simp
  with GotoREFRESH rf j1 wt show ?thesis by auto
next
  case (GotoWAIT refreshCh)
  obtain j2 t2 where wt: "leaderLoop_WAIT E cfg refreshCh t = (j2, t2)"
    by (cases "leaderLoop_WAIT E cfg refreshCh t")
  with leaderLoop_WAIT_closed [OF assms(2) assms(3), of cfg refreshCh] have "j2 = Exit" by simp
  with GotoWAIT wt show ?thesis by simp
qed

lemma fuel6: "(6::nat) = Suc (Suc (Suc (Suc (Suc (Suc 0)))))"
  by simp

text \<open>
  C9, as amended. In a pass from \<open>REFRESH\<close> the stop channel is polled once, and only after
  the barrier and the full sweep have both returned without error: the sweep's Raft
  calls lie between the barrier and the poll, and a failed barrier or sweep goes to the
  wait phase without the poll. Every wait iteration starts with the select over the
  stop channel, \<open>shutdowner\<close>, the interval and \<open>refreshCh\<close>, and returns from the loop
  exactly when the select takes the stop or the shutdown case. So, once the stop channel
  is closed, the loop returns within the pass in progress and one select (two jumps),
  provided that the channel stays closed and that the select then takes the stop or the
  shutdown case; and the loop returns in no other way than from the poll or such a
  select. Time is not modelled.
\<close>

theorem leaderLoop_stop_checks:
  assumes "Barrier E s = (b, s1)" and "Refresh E cfg s1 = (r, s2)"
  shows "leaderLoop_REFRESH E cfg s =
           (case b of
              Some err \<Rightarrow>
                (GotoWAIT False, emit (Log LvlError ''taskvault: failed to wait for barrier'' [ArgErr err]) s1)
            | None \<Rightarrow>
                (case r of
                   Some err \<Rightarrow> (GotoWAIT False, emit (Log LvlError ''failed to '' [ArgErr err]) s2)
                 | None \<Rightarrow> (if stopCh_closed E (world s2) then Exit else GotoWAIT True, emit PollStop s2)))
       \<and> (\<exists>es. trace s2 = trace s @ [CallBarrier] @ es
              \<and> (b = None \<and> r = None \<longrightarrow>
                   trace (snd (leaderLoop_REFRESH E cfg s)) = trace s @ [CallBarrier] @ es @ [PollStop]))
       \<and> (\<forall>refreshCh t.
             (\<exists>es. trace (snd (leaderLoop_WAIT E cfg refreshCh t)) = trace t @ WaitSelect refreshCh # es)
             \<and> (fst (leaderLoop_WAIT E cfg refreshCh t) = Exit) =
                 (fst (wait_select E refreshCh (world t)) = SelStop
                  \<or> fst (wait_select E refreshCh (world t)) = SelShutdown))
       \<and> (stop_stays_closed E \<and> select_takes_stop E \<longrightarrow>
             (\<forall>fuel j t. 2 \<le> fuel \<and> stopCh_closed E (world t) \<and> j \<noteq> Blocked \<longrightarrow>
                (\<exists>t'. leaderLoop_from E cfg fuel j t = Some t')))
       \<and> (\<forall>fuel s'. leaderLoop E cfg fuel s = Some s' \<longrightarrow>
             (\<exists>t. s' = emit PollStop t \<and> stopCh_closed E (world t))
             \<or> (\<exists>t refreshCh c w'. wait_select E refreshCh (world t) = (c, w')
                   \<and> (c = SelStop \<or> c = SelShutdown)
                   \<and> s' = emit (WaitSelect refreshCh) (t\<lparr>world := w'\<rparr>)))"
proof -
  have pass: "leaderLoop_REFRESH E cfg s =
           (case b of
              Some err \<Rightarrow>
                (GotoWAIT False, emit (Log LvlError ''taskvault: failed to wait for barrier'' [ArgErr err]) s1)
            | None \<Rightarrow>
                (case r of
                   Some err \<Rightarrow> (GotoWAIT False, emit (Log LvlError ''failed to '' [ArgErr err]) s2)
                 | None \<Rightarrow> (if stopCh_closed E (world s2) then Exit else GotoWAIT True, emit PollStop s2)))"
    using assms by (auto simp: leaderLoop_REFRESH_def Let_def emit_world split: option.splits)
  from Barrier_trace [OF assms(1)] have tr1: "trace s1 = trace s @ [CallBarrier]" .
  from Refresh_mono [OF assms(2)] obtain es where tr2: "trace s2 = trace s1 @ es" by blast
  have order: "\<exists>es. trace s2 = trace s @ [CallBarrier] @ es
              \<and> (b = None \<and> r = None \<longrightarrow>
                   trace (snd (leaderLoop_REFRESH E cfg s)) = trace s @ [CallBarrier] @ es @ [PollStop])"
    using pass tr1 tr2 by (auto simp: emit_def)
  have waits: "\<forall>refreshCh t.
             (\<exists>es. trace (snd (leaderLoop_WAIT E cfg refreshCh t)) = trace t @ WaitSelect refreshCh # es)
             \<and> (fst (leaderLoop_WAIT E cfg refreshCh t) = Exit) =
                 (fst (wait_select E refreshCh (world t)) = SelStop
                  \<or> fst (wait_select E refreshCh (world t)) = SelShutdown)"
    using leaderLoop_WAIT_select [of E cfg] by blast
  have exits: "stop_stays_closed E \<and> select_takes_stop E \<longrightarrow>
             (\<forall>fuel j t. 2 \<le> fuel \<and> stopCh_closed E (world t) \<and> j \<noteq> Blocked \<longrightarrow>
                (\<exists>t'. leaderLoop_from E cfg fuel j t = Some t'))"
  proof (intro impI allI)
    fix fuel :: nat and j :: jump and t :: "'a st"
    assume env: "stop_stays_closed E \<and> select_takes_stop E"
      and at: "2 \<le> fuel \<and> stopCh_closed E (world t) \<and> j \<noteq> Blocked"
    from at obtain n where fuel: "fuel = Suc (Suc n)"
      by (cases fuel; cases "fuel - 1") auto
    from env at have "\<exists>t'. leaderLoop_from E cfg (Suc (Suc n)) j t = Some t'"
      by (intro leaderLoop_from_exits) simp_all
    with fuel show "\<exists>t'. leaderLoop_from E cfg fuel j t = Some t'" by simp
  qed
  have only: "\<forall>fuel s'. leaderLoop E cfg fuel s = Some s' \<longrightarrow>
             (\<exists>t. s' = emit PollStop t \<and> stopCh_closed E (world t))
             \<or> (\<exists>t refreshCh c w'. wait_select E refreshCh (world t) = (c, w')
                   \<and> (c = SelStop \<or> c = SelShutdown)
                   \<and> s' = emit (WaitSelect refreshCh) (t\<lparr>world := w'\<rparr>))"
  proof (intro allI impI)
    fix fuel s'
    assume "leaderLoop E cfg fuel s = Some s'"
    then have "leaderLoop_from E cfg fuel GotoREFRESH s = Some s'" by (simp add: leaderLoop_def)
    from leaderLoop_from_exit [OF this]
    show "(\<exists>t. s' = emit PollStop t \<and> stopCh_closed E (world t))
             \<or> (\<exists>t refreshCh c w'. wait_select E refreshCh (world t) = (c, w')
                   \<and> (c = SelStop \<or> c = SelShutdown)
                   \<and> s' = emit (WaitSelect refreshCh) (t\<lparr>world := w'\<rparr>))"
      by simp
  qed
  show ?thesis
    by (rule conjI [OF pass conjI [OF order conjI [OF waits conjI [OF exits only]]]])
qed

text \<open>
  C9 as stated fails twice. The stop channel is closed before the loop starts, the
  barrier succeeds, and the loop still runs the sweep, which fetches the configuration
  and adds a voter, before it polls the stop channel. And with the stop channel closed
  and the barrier failing, two selects take the interval case: the loop starts three
  barriers before a select takes the stop case.
\<close>

theorem stop_checked_late_and_by_chance:
  "leaderLoop sim_env (sim_cfg ''n1'') 1
     (start ((sim_world [sim_member ''n2'' ''10.0.0.2'' False StatusAlive]
                [sim_server ''n1'' ''10.0.0.1:6868''])\<lparr>sim_stop := True\<rparr>))
   = Some \<lparr>world = (sim_world [sim_member ''n2'' ''10.0.0.2'' False StatusAlive]
                      [sim_server ''n1'' ''10.0.0.1:6868'', sim_server ''n2'' ''10.0.0.2:6868''])
                    \<lparr>sim_stop := True\<rparr>,
           trace = [CallBarrier, CallGetConfiguration, CallAddVoter ''n2'' ''10.0.0.2:6868'', PollStop]\<rparr>
   \<and> stopCh_closed sim_env
        ((sim_world [sim_member ''n2'' ''10.0.0.2'' False StatusAlive]
            [sim_server ''n1'' ''10.0.0.1:6868''])\<lparr>sim_stop := True\<rparr>)
   \<and> leaderLoop sim_env (sim_cfg ''n1'') 6
       (start ((sim_world [] [])
               \<lparr>sim_fail_barrier := True, sim_stop := True,
                sim_selects := [SelInterval, SelInterval, SelStop]\<rparr>))
     = Some \<lparr>world = (sim_world [] [])\<lparr>sim_fail_barrier := True, sim_stop := True\<rparr>,
             trace = [CallBarrier,
                      Log LvlError ''taskvault: failed to wait for barrier'' [ArgErr (LibError ''barrier'')],
                      WaitSelect False,
                      CallBarrier,
                      Log LvlError ''taskvault: failed to wait for barrier'' [ArgErr (LibError ''barrier'')],
                      WaitSelect False,
                      CallBarrier,
                      Log LvlError ''taskvault: failed to wait for barrier'' [ArgErr (LibError ''barrier'')],
                      WaitSelect False]\<rparr>
   \<and> stopCh_closed sim_env
        ((sim_world [] [])
         \<lparr>sim_fail_barrier := True, sim_stop := True,
          sim_selects := [SelInterval, SelInterval, SelStop]\<rparr>)"
proof -
  have late: "leaderLoop sim_env (sim_cfg ''n1'') 1
     (start ((sim_world [sim_member ''n2'' ''10.0.0.2'' False StatusAlive]
                [sim_server ''n1'' ''10.0.0.1:6868''])\<lparr>sim_stop := True\<rparr>))
   = Some \<lparr>world = (sim_world [sim_member ''n2'' ''10.0.0.2'' False StatusAlive]
                      [sim_server ''n1'' ''10.0.0.1:6868'', sim_server ''n2'' ''10.0.0.2:6868''])
                    \<lparr>sim_stop := True\<rparr>,
           trace = [CallBarrier, CallGetConfiguration, CallAddVoter ''n2'' ''10.0.0.2:6868'', PollStop]\<rparr>"
    by (simp add: leaderLoop_def leaderLoop_REFRESH_def Refresh_def RefreshMember_def addRaftPeer_def
        Barrier_def GetConfiguration_def AddVoter_def emit_def Let_def
        sim_env_def sim_member_def sim_server_def sim_world_def sim_cfg_def sim_addr_6868 sim_AddVoter_def
        start_def toServerPart_spec_def digit_val_def)
  have chance: "leaderLoop sim_env (sim_cfg ''n1'') 6
       (start ((sim_world [] [])
               \<lparr>sim_fail_barrier := True, sim_stop := True,
                sim_selects := [SelInterval, SelInterval, SelStop]\<rparr>))
     = Some \<lparr>world = (sim_world [] [])\<lparr>sim_fail_barrier := True, sim_stop := True\<rparr>,
             trace = [CallBarrier,
                      Log LvlError ''taskvault: failed to wait for barrier'' [ArgErr (LibError ''barrier'')],
                      WaitSelect False,
                      CallBarrier,
                      Log LvlError ''taskvault: failed to wait for barrier'' [ArgErr (LibError ''barrier'')],
                      WaitSelect False,
                      CallBarrier,
                      Log LvlError ''taskvault: failed to wait for barrier'' [ArgErr (LibError ''barrier'')],
                      WaitSelect False]\<rparr>"
    unfolding fuel6
    by (simp add: leaderLoop_def leaderLoop_REFRESH_def leaderLoop_WAIT_def
        Barrier_def emit_def Let_def
        sim_env_def sim_world_def start_def)
  from late chance show ?thesis
    by (simp add: sim_env_def sim_world_def)
qed

lemma sim_env_stop_first_assumptions:
  "stop_stays_closed sim_env_stop_first \<and> select_takes_stop sim_env_stop_first"
  by (simp add: stop_stays_closed_def select_takes_stop_def sim_env_stop_first_def sim_env_def)

theorem leaderLoop_stop_checks_witness:
  "leaderLoop_from sim_env_stop_first (sim_cfg ''n1'') 2 GotoREFRESH
     (start ((sim_world [] [])
             \<lparr>sim_fail_barrier := True, sim_stop := True, sim_selects := [SelInterval, SelInterval]\<rparr>))
   = Some \<lparr>world = (sim_world [] [])
                    \<lparr>sim_fail_barrier := True, sim_stop := True, sim_selects := [SelInterval, SelInterval]\<rparr>,
           trace = [CallBarrier,
                    Log LvlError ''taskvault: failed to wait for barrier'' [ArgErr (LibError ''barrier'')],
                    WaitSelect False]\<rparr>"
proof -
  let ?w = "(sim_world [] [])
             \<lparr>sim_fail_barrier := True, sim_stop := True, sim_selects := [SelInterval, SelInterval]\<rparr>"
  let ?s1 = "\<lparr>world = ?w, trace = [CallBarrier]\<rparr>"
  have h1: "Barrier sim_env_stop_first (start ?w) = (Some (LibError ''barrier''), ?s1)"
    by (simp add: Barrier_def emit_def sim_env_stop_first_def sim_env_def sim_world_def start_def)
  have h2: "Refresh sim_env_stop_first (sim_cfg ''n1'') ?s1 = (None, ?s1)"
    by (simp add: Refresh_def sim_env_stop_first_def sim_env_def sim_world_def)
  have closed: "stopCh_closed sim_env_stop_first (world (start ?w))"
    by (simp add: sim_env_stop_first_def sim_env_def sim_world_def start_def)
  from leaderLoop_stop_checks [OF h1 h2] sim_env_stop_first_assumptions closed
  obtain t' where ex: "leaderLoop_from sim_env_stop_first (sim_cfg ''n1'') 2 GotoREFRESH (start ?w) = Some t'"
    by blast
  moreover from leaderLoop_stop_checks [OF h1 h2]
  have pass: "leaderLoop_REFRESH sim_env_stop_first (sim_cfg ''n1'') (start ?w) =
      (GotoWAIT False,
       emit (Log LvlError ''taskvault: failed to wait for barrier'' [ArgErr (LibError ''barrier'')]) ?s1)"
    by simp
  have "leaderLoop_from sim_env_stop_first (sim_cfg ''n1'') (Suc (Suc 0)) GotoREFRESH (start ?w) =
      Some \<lparr>world = ?w,
            trace = [CallBarrier,
                     Log LvlError ''taskvault: failed to wait for barrier'' [ArgErr (LibError ''barrier'')],
                     WaitSelect False]\<rparr>"
    using pass
    by (simp add: leaderLoop_WAIT_def emit_def Let_def sim_env_stop_first_def sim_env_def sim_world_def)
  then show ?thesis by (simp add: numeral_2_eq_2)
qed

section \<open>At most one reconciler loop\<close>












end
